theory Spec2Isabelle
  imports Complex_Main "HOL-Library.Sublist"
begin

section \<open>Python values used by the service\<close>

text \<open>
  The service (a FastAPI application, package \<open>app\<close>) moves JSON documents between
  three HTTP peers. Python values are modelled as follows.

  \<^item> \<open>str\<close> is \<open>string\<close>; a character is a code point below 256.
  \<^item> \<open>float\<close> is \<open>pyfloat\<close>: a finite value, NaN or a signed infinity. The sign of
    zero is dropped (\<open>0.0\<close> and \<open>-0.0\<close> are both \<open>FloatVal 0\<close>; both are falsy).
  \<^item> what \<open>json.loads\<close> / \<open>response.json()\<close> returns is \<open>json\<close>; a \<open>dict\<close> is an
    association list read with \<open>map_of\<close>.
  \<^item> an exception is a value of \<open>py_exn\<close>; a function that can raise returns
    \<open>py_exn + 'a\<close> with \<open>Inl\<close> for the exception.
\<close>

datatype pyfloat = FloatVal rat | FloatNaN | FloatInf bool

datatype json =
    JNull
  | JBool bool
  | JInt int
  | JFloat pyfloat
  | JStr string
  | JList "json list"
  | JDict "(string \<times> json) list"

datatype py_exn =
    RuntimeError string
  | HTTPStatusError int "string option" string
  | HTTPError
  | HTTPException int string
  | ValidationError
  | AttributeError
  | TypeError
  | ValueError
  | KeyError
  | IndexError
  | OverflowError
  | OtherError string

text \<open>
  \<open>HTTPStatusError status body reason\<close> is \<open>httpx.HTTPStatusError\<close> with the response's
  \<open>status_code\<close>, its body and its \<open>reason_phrase\<close>. The body is \<open>None\<close> when the
  response was opened as a stream and never read: \<open>response.text\<close> then raises
  \<open>httpx.ResponseNotRead\<close>, which is a RuntimeError and is kept as one, with its
  message. \<open>HTTPError\<close> is any other \<open>httpx.HTTPError\<close>; \<open>HTTPException status detail\<close>
  is FastAPI's; \<open>ValidationError\<close> is pydantic's.
\<close>

definition and_then :: "py_exn + 'a \<Rightarrow> ('a \<Rightarrow> py_exn + 'b) \<Rightarrow> py_exn + 'b" where
  "and_then r f = (case r of Inl e \<Rightarrow> Inl e | Inr v \<Rightarrow> f v)"

text \<open>What \<open>response.text\<close> raises for a response that was never read.\<close>

definition response_not_read :: py_exn where
  "response_not_read =
     RuntimeError
       (''Attempted to access streaming response content,'' @
        '' without having called `read()`.'')"

text \<open>\<open>exc.response.text or exc.response.reason_phrase\<close>.\<close>

definition text_or_reason :: "string option \<Rightarrow> string \<Rightarrow> py_exn + string" where
  "text_or_reason body reason =
     (case body of
        None \<Rightarrow> Inl response_not_read
      | Some t \<Rightarrow> Inr (if t \<noteq> [] then t else reason))"

text \<open>Truthiness, as \<open>not x\<close>, \<open>if x\<close> and \<open>x or y\<close> read it.\<close>

definition float_truthy :: "pyfloat \<Rightarrow> bool" where
  "float_truthy f = (f \<noteq> FloatVal 0)"

fun truthy :: "json \<Rightarrow> bool" where
  "truthy JNull = False"
| "truthy (JBool b) = b"
| "truthy (JInt n) = (n \<noteq> 0)"
| "truthy (JFloat f) = float_truthy f"
| "truthy (JStr s) = (s \<noteq> [])"
| "truthy (JList xs) = (xs \<noteq> [])"
| "truthy (JDict kvs) = (kvs \<noteq> [])"

definition py_or :: "json \<Rightarrow> json \<Rightarrow> json" where
  "py_or a b = (if truthy a then a else b)"

text \<open>\<open>value.get(key)\<close>: \<open>None\<close> for a missing key, AttributeError off a dict.\<close>

fun dict_get :: "json \<Rightarrow> string \<Rightarrow> py_exn + json" where
  "dict_get (JDict kvs) k = Inr (case map_of kvs k of None \<Rightarrow> JNull | Some v \<Rightarrow> v)"
| "dict_get _ k = Inl AttributeError"

text \<open>\<open>value[0]\<close>.\<close>

fun subscript0 :: "json \<Rightarrow> py_exn + json" where
  "subscript0 (JList []) = Inl IndexError"
| "subscript0 (JList (x # xs)) = Inr x"
| "subscript0 (JStr []) = Inl IndexError"
| "subscript0 (JStr (c # cs)) = Inr (JStr [c])"
| "subscript0 (JDict kvs) = Inl KeyError"
| "subscript0 _ = Inl TypeError"

subsection \<open>String methods\<close>

text \<open>
  \<open>str.strip()\<close> removes the characters for which \<open>str.isspace\<close> holds; below 256 these
  are 9 to 13, 28 to 32, 133 and 160.
\<close>

definition is_space :: "char \<Rightarrow> bool" where
  "is_space c =
     (let n = (of_char c :: nat)
      in (9 \<le> n \<and> n \<le> 13) \<or> (28 \<le> n \<and> n \<le> 32) \<or> n = 133 \<or> n = 160)"

definition py_strip :: "string \<Rightarrow> string" where
  "py_strip s = rev (dropWhile is_space (rev (dropWhile is_space s)))"

text \<open>\<open>value.strip()\<close> on an arbitrary value: only \<open>str\<close> has the method.\<close>

fun strip_method :: "json \<Rightarrow> py_exn + string" where
  "strip_method (JStr s) = Inr (py_strip s)"
| "strip_method _ = Inl AttributeError"

text \<open>
  \<open>s.split(sep)\<close> for a non-empty separator: scan from the left, cut at every
  occurrence found, resume after it. \<open>split_acc sep cur s\<close> has read \<open>cur\<close> since the
  last cut. (Python raises ValueError for an empty separator; the callers pass literals.)
\<close>

function split_acc :: "string \<Rightarrow> string \<Rightarrow> string \<Rightarrow> string list" where
  "split_acc sep cur [] = [cur]"
| "split_acc sep cur (c # cs) =
     (if prefix sep (c # cs) then cur # split_acc sep [] (drop (length sep - 1) cs)
      else split_acc sep (cur @ [c]) cs)"
  by pat_completeness auto
termination
  by (relation "measure (\<lambda>(sep, cur, s). length s)") auto

definition py_split :: "string \<Rightarrow> string \<Rightarrow> string list" where
  "py_split s sep = split_acc sep [] s"

text \<open>
  \<open>s.rsplit(sep, 1)\<close>: one cut, at the last occurrence of \<open>sep\<close>. \<open>before_last sep s\<close>
  is the text before that occurrence, \<open>None\<close> when there is none.
\<close>

fun before_last :: "string \<Rightarrow> string \<Rightarrow> string option" where
  "before_last sep [] = (if sep = [] then Some [] else None)"
| "before_last sep (c # cs) =
     (case before_last sep cs of
        Some p \<Rightarrow> Some (c # p)
      | None \<Rightarrow> if prefix sep (c # cs) then Some [] else None)"

definition py_rsplit1 :: "string \<Rightarrow> string \<Rightarrow> string list" where
  "py_rsplit1 s sep =
     (case before_last sep s of
        None \<Rightarrow> [s]
      | Some p \<Rightarrow> [p, drop (length p + length sep) s])"

section \<open>Configuration (config.py)\<close>

text \<open>
  The pydantic models of \<open>config.py\<close>. Field names carry the model's initials where two
  models share a name. Timeouts are left out: the model has no clock.
\<close>

record ModelConfig =
  model_name :: string
  temperature :: pyfloat
  top_p :: pyfloat
  max_tokens :: int
  stream :: bool

record RetrievalConfig =
  url :: string
  top_k :: int
  use_rerank :: bool
  rerank_mode :: string
  rerank_top_k :: "int option"

record RewriterConfig =
  enabled :: bool
  rw_model_name :: string
  rw_temperature :: pyfloat
  rw_top_p :: pyfloat
  rw_max_tokens :: int

record Settings =
  api_key :: string
  base_url :: string
  model :: ModelConfig
  retrieval :: RetrievalConfig
  rewriter :: RewriterConfig

definition require_api_key :: "Settings \<Rightarrow> py_exn + string" where
  "require_api_key s =
     (if api_key s = []
      then Inl (RuntimeError
        ''SILICONFLOW_API_KEY is not set. Export it before starting the service.'')
      else Inr (api_key s))"

text \<open>The constraints pydantic enforces when a \<open>RetrievalConfig\<close> is built.\<close>

definition valid_retrieval_config :: "RetrievalConfig \<Rightarrow> bool" where
  "valid_retrieval_config c =
     (1 \<le> top_k c \<and> top_k c \<le> 50 \<and>
      (rerank_mode c = ''cross'' \<or> rerank_mode c = ''bi'') \<and>
      (case rerank_top_k c of None \<Rightarrow> True | Some n \<Rightarrow> 1 \<le> n \<and> n \<le> 50))"

text \<open>
  The defaults of \<open>config.py\<close> (\<open>Settings()\<close>), the credential replaced by a
  placeholder. Decimal defaults stand for the nearest binary64 value.
\<close>

definition default_settings :: Settings where
  "default_settings =
     \<lparr> api_key = ''sk-placeholder'',
       base_url = ''https://api.siliconflow.cn/v1/chat/completions'',
       model = \<lparr> model_name = ''Qwen/Qwen2.5-7B-Instruct'',
                 temperature = FloatVal (7 / 10), top_p = FloatVal (9 / 10),
                 max_tokens = 1024, stream = False \<rparr>,
       retrieval = \<lparr> url = ''http://localhost:8000/search/docs'', top_k = 5,
                     use_rerank = True, rerank_mode = ''cross'', rerank_top_k = None \<rparr>,
       rewriter = \<lparr> enabled = True, rw_model_name = ''Qwen/Qwen2.5-7B-Instruct'',
                    rw_temperature = FloatVal (1 / 10), rw_top_p = FloatVal (9 / 10),
                    rw_max_tokens = 128 \<rparr> \<rparr>"

section \<open>Schemas (schemas.py)\<close>

text \<open>
  The records hold validated values. \<open>RetrievedDocument\<close>: \<open>doc_id\<close> is the field
  \<open>id\<close>; \<open>source\<close> is a \<open>dict\<close>, kept as its association list.
\<close>

record RetrievedDocument =
  doc_id :: "string option"
  title :: "string option"
  content :: string
  score :: "pyfloat option"
  chunk_id :: "string option"
  chunk_type :: "string option"
  origin_id :: "string option"
  source_text :: "string option"
  source :: "(string \<times> json) list option"

record ChatRequest =
  query :: string
  req_top_k :: "int option"
  req_stream :: bool
  req_use_rerank :: "bool option"
  req_rerank_mode :: "string option"
  req_rerank_top_k :: "int option"

text \<open>The constraints pydantic enforces when a \<open>ChatRequest\<close> is parsed.\<close>

definition valid_request :: "ChatRequest \<Rightarrow> bool" where
  "valid_request r =
     (query r \<noteq> [] \<and>
      (case req_top_k r of None \<Rightarrow> True | Some n \<Rightarrow> 1 \<le> n \<and> n \<le> 50) \<and>
      (case req_rerank_mode r of None \<Rightarrow> True | Some m \<Rightarrow> m = ''cross'' \<or> m = ''bi'') \<and>
      (case req_rerank_top_k r of None \<Rightarrow> True | Some n \<Rightarrow> 1 \<le> n \<and> n \<le> 50))"

record Usage =
  prompt_tokens :: "int option"
  completion_tokens :: "int option"
  total_tokens :: "int option"

text \<open>
  \<open>ChatResponse\<close>: \<open>cr_model\<close> is the field \<open>model\<close>; \<open>raw_response\<close> is a \<open>dict\<close>, kept
  as the decoded reply.
\<close>

record ChatResponse =
  answer :: string
  cr_model :: string
  usage :: "Usage option"
  raw_response :: json
  documents :: "RetrievedDocument list"

section \<open>Prompts (prompt.py)\<close>

text \<open>
  The four prompt texts are Chinese prose, outside the character range of \<open>string\<close>.
  A rendered prompt is therefore kept as the template's name with the values
  interpolated into it: \<open>USER_PROMPT_TEMPLATE q c\<close> is
  \<open>USER_PROMPT_TEMPLATE.format(query=q, context=c)\<close>, and
  \<open>QUERY_REWRITER_USER_PROMPT q\<close> is \<open>QUERY_REWRITER_USER_PROMPT.format(query=q)\<close>.
  The context block is the joined documents, or the fixed notice that stands in for
  an empty one.
\<close>

datatype context_block = ContextText string | NoDocumentsNotice

datatype prompt_text =
    SYSTEM_PROMPT
  | USER_PROMPT_TEMPLATE string context_block
  | QUERY_REWRITER_SYSTEM_PROMPT
  | QUERY_REWRITER_USER_PROMPT string

record message =
  role :: string
  content_of :: prompt_text

text \<open>
  Library behaviour that depends on binary64 arithmetic, on \<open>repr\<close> or on the pydantic
  release is a parameter: \<open>float(n)\<close> for an \<open>int\<close> (\<open>None\<close>: OverflowError), \<open>float(s)\<close>
  for a \<open>str\<close> (\<open>None\<close>: ValueError), \<open>str(v)\<close> for a value that is not a \<open>str\<close>,
  \<open>f"{x:.3f}"\<close>, and what pydantic makes of a value that is neither \<open>None\<close> nor of the
  field's type, for a \<open>str\<close>, a \<open>Dict[str, Any]\<close> and an \<open>int\<close> field (\<open>None\<close>:
  ValidationError).
\<close>

record py_builtins =
  float_of_int :: "int \<Rightarrow> pyfloat option"
  float_of_str :: "string \<Rightarrow> pyfloat option"
  str_of :: "json \<Rightarrow> string"
  format_3f :: "pyfloat \<Rightarrow> string"
  coerce_str :: "json \<Rightarrow> string option"
  coerce_dict :: "json \<Rightarrow> (string \<times> json) list option"
  coerce_int :: "json \<Rightarrow> int option"

text \<open>
  Validation of one field by pydantic: \<open>Optional[str]\<close>, \<open>Optional[Dict[str, Any]]\<close>,
  \<open>Optional[int]\<close>, and a required \<open>str\<close>, for which \<open>None\<close> is refused.
\<close>

definition optional_str_field :: "py_builtins \<Rightarrow> json \<Rightarrow> py_exn + string option" where
  "optional_str_field py v =
     (case v of
        JNull \<Rightarrow> Inr None
      | JStr s \<Rightarrow> Inr (Some s)
      | _ \<Rightarrow> (case coerce_str py v of None \<Rightarrow> Inl ValidationError | Some s \<Rightarrow> Inr (Some s)))"

definition optional_dict_field ::
  "py_builtins \<Rightarrow> json \<Rightarrow> py_exn + (string \<times> json) list option" where
  "optional_dict_field py v =
     (case v of
        JNull \<Rightarrow> Inr None
      | JDict kvs \<Rightarrow> Inr (Some kvs)
      | _ \<Rightarrow> (case coerce_dict py v of None \<Rightarrow> Inl ValidationError | Some d \<Rightarrow> Inr (Some d)))"

definition optional_int_field :: "py_builtins \<Rightarrow> json \<Rightarrow> py_exn + int option" where
  "optional_int_field py v =
     (case v of
        JNull \<Rightarrow> Inr None
      | JInt n \<Rightarrow> Inr (Some n)
      | _ \<Rightarrow> (case coerce_int py v of None \<Rightarrow> Inl ValidationError | Some n \<Rightarrow> Inr (Some n)))"

definition str_field :: "py_builtins \<Rightarrow> json \<Rightarrow> py_exn + string" where
  "str_field py v =
     (case v of
        JNull \<Rightarrow> Inl ValidationError
      | JStr s \<Rightarrow> Inr s
      | _ \<Rightarrow> (case coerce_str py v of None \<Rightarrow> Inl ValidationError | Some s \<Rightarrow> Inr s))"

function str_of_nat :: "nat \<Rightarrow> string" where
  "str_of_nat n =
     (if n < 10 then [char_of (48 + n)]
      else str_of_nat (n div 10) @ [char_of (48 + n mod 10)])"
  by pat_completeness auto
termination
  by (relation "measure id") auto

declare str_of_nat.simps [simp del]

definition replace_newlines :: "string \<Rightarrow> string" where
  "replace_newlines s = map (\<lambda>c. if c = CHR 0x0A then CHR '' '' else c) s"

text \<open>\<open>sep.join(parts)\<close>.\<close>

fun join :: "string \<Rightarrow> string list \<Rightarrow> string" where
  "join sep [] = []"
| "join sep [p] = p"
| "join sep (p # q # ps) = p @ sep @ join sep (q # ps)"

text \<open>\<open>a or b\<close> for an optional string \<open>a\<close> and a string \<open>b\<close>.\<close>

definition str_or :: "string option \<Rightarrow> string \<Rightarrow> string" where
  "str_or a b = (case a of None \<Rightarrow> b | Some s \<Rightarrow> if s \<noteq> [] then s else b)"

definition format_document :: "py_builtins \<Rightarrow> RetrievedDocument \<Rightarrow> nat \<Rightarrow> string" where
  "format_document py doc rank =
     (let label = str_or (title doc) (str_or (doc_id doc) (''Doc-'' @ str_of_nat rank));
          header_parts =
            [''['' @ str_of_nat rank @ ''] '' @ label] @
            (case score doc of None \<Rightarrow> [] | Some x \<Rightarrow> [''score='' @ format_3f py x]);
          header = (if length header_parts > 1
                    then '' ('' @ join '', '' (tl header_parts) @ '')'' else [])
      in hd header_parts @ header @ [CHR 0x0A] @ replace_newlines (py_strip (content doc)))"

definition build_messages ::
  "py_builtins \<Rightarrow> string \<Rightarrow> RetrievedDocument list \<Rightarrow> message list" where
  "build_messages py q docs =
     (let context = join [CHR 0x0A, CHR 0x0A]
            (map (\<lambda>(rank, doc). format_document py doc rank)
               (zip [1 ..< Suc (length docs)] docs))
      in [\<lparr> role = ''system'', content_of = SYSTEM_PROMPT \<rparr>,
          \<lparr> role = ''user'',
            content_of =
              USER_PROMPT_TEMPLATE (py_strip q)
                (if context = [] then NoDocumentsNotice else ContextText context) \<rparr>])"

definition build_rewriter_messages :: "string \<Rightarrow> message list" where
  "build_rewriter_messages q =
     [\<lparr> role = ''system'', content_of = QUERY_REWRITER_SYSTEM_PROMPT \<rparr>,
      \<lparr> role = ''user'', content_of = QUERY_REWRITER_USER_PROMPT (py_strip q) \<rparr>]"

section \<open>HTTP peers\<close>

text \<open>
  Request bodies. \<open>rp_rerank_top_k = None\<close> means the key \<open>rerank_top_k\<close> is absent
  from the retrieval body; \<open>rp_rerank_mode = None\<close> is the value \<open>null\<close>.
\<close>

record completion_payload =
  cp_model :: string
  cp_messages :: "message list"
  cp_temperature :: pyfloat
  cp_top_p :: pyfloat
  cp_max_tokens :: int
  cp_stream :: bool

record retrieval_payload =
  rp_query :: string
  rp_k :: int
  rp_use_rerank :: bool
  rp_rerank_mode :: "string option"
  rp_rerank_top_k :: "int option"

text \<open>One outgoing request: the URL and the JSON body.\<close>

datatype http_call =
    PostCompletion string completion_payload
  | StreamCompletion string completion_payload
  | PostRetrieval string retrieval_payload

text \<open>
  How the completion service answers a streamed request. \<open>StreamRejected status reason\<close>:
  with a status that \<open>raise_for_status\<close> refuses; the body of such a response has not
  been read. \<open>StreamOpened payloads ending\<close>: with a stream of lines; \<open>payloads\<close> are the
  values \<open>json.loads\<close> returns for the \<open>data:\<close> lines read, in order (the lines that
  are skipped, and those after the \<open>[DONE]\<close> line, are not listed), and \<open>ending\<close> is
  the exception that ends the reading, if one does (a failure to connect has no
  payloads).
\<close>

datatype stream_outcome =
    StreamRejected int string
  | StreamOpened "json list" "py_exn option"

text \<open>
  What the peers do during one \<open>/chat\<close> request. A reply is what
  \<open>post\<close>, \<open>raise_for_status\<close> and \<open>response.json()\<close> give together: the decoded body,
  or the exception raised on the way.
\<close>

record upstream =
  rewrite_reply :: "py_exn + json"
  retrieval_reply :: "py_exn + json"
  chat_reply :: "py_exn + json"
  stream_reply :: stream_outcome

section \<open>Clients (client.py)\<close>

subsection \<open>SiliconFlowClient\<close>

text \<open>
  \<open>SiliconFlowClient.chat\<close>, as the handler calls it (\<open>stream\<close> not given). The headers
  are built before the request is sent, so a missing key raises before any request.
  Functions that talk to a peer return their result and the requests they sent.
\<close>

definition client_chat ::
  "Settings \<Rightarrow> upstream \<Rightarrow> message list \<Rightarrow> (py_exn + json) \<times> http_call list" where
  "client_chat settings up messages =
     (let stream_flag = stream (model settings);
          payload = \<lparr> cp_model = model_name (model settings), cp_messages = messages,
                      cp_temperature = temperature (model settings),
                      cp_top_p = top_p (model settings),
                      cp_max_tokens = max_tokens (model settings),
                      cp_stream = stream_flag \<rparr>
      in case require_api_key settings of
           Inl e \<Rightarrow> (Inl e, [])
         | Inr key \<Rightarrow> (chat_reply up, [PostCompletion (base_url settings) payload]))"

text \<open>
  Lines 79 to 94 of \<open>rewrite_query\<close>: what is returned for the decoded reply \<open>data\<close>.
  Logging and printing are left out.
\<close>

definition rewrite_from_reply :: "string \<Rightarrow> json \<Rightarrow> py_exn + string" where
  "rewrite_from_reply q data =
     and_then (dict_get data ''choices'') (\<lambda>c.
       let choices = py_or c (JList []) in
       if \<not> truthy choices then Inr q
       else
         and_then (subscript0 choices) (\<lambda>choice.
         and_then (dict_get choice ''message'') (\<lambda>m.
           let message = py_or m (JDict []) in
           and_then (dict_get message ''content'') (\<lambda>c.
           and_then (strip_method (py_or c (JStr []))) (\<lambda>content.
             if content = [] then Inr q
             else Inr (py_strip
                    (hd (py_rsplit1 (last (py_split content ''<rewrite>''))
                           ''</rewrite>''))))))))"

definition rewrite_query ::
  "Settings \<Rightarrow> upstream \<Rightarrow> string \<Rightarrow> (py_exn + string) \<times> http_call list" where
  "rewrite_query settings up q =
     (let cfg = rewriter settings in
      if \<not> enabled cfg then (Inr q, [])
      else
        let messages = build_rewriter_messages q;
            payload = \<lparr> cp_model = rw_model_name cfg, cp_messages = messages,
                        cp_temperature = rw_temperature cfg, cp_top_p = rw_top_p cfg,
                        cp_max_tokens = rw_max_tokens cfg, cp_stream = False \<rparr>
        in case require_api_key settings of
             Inl e \<Rightarrow> (Inl e, [])
           | Inr key \<Rightarrow>
               (and_then (rewrite_reply up) (rewrite_from_reply q),
                [PostCompletion (base_url settings) payload]))"

text \<open>Lines 134 to 136 of \<open>stream_chat\<close>: the \<open>content\<close> of one decoded payload.\<close>

definition delta_content :: "json \<Rightarrow> py_exn + json" where
  "delta_content payload =
     and_then (dict_get payload ''choices'') (\<lambda>c.
     and_then (subscript0 (py_or c (JList [JDict []]))) (\<lambda>choice.
     and_then (dict_get choice ''delta'') (\<lambda>d.
       let delta = py_or d (JDict []) in dict_get delta ''content'')))"

text \<open>
  The loop over the lines: a truthy \<open>content\<close> is yielded, whatever its type; an
  exception ends the iteration.
\<close>

fun yield_contents :: "json list \<Rightarrow> py_exn option \<Rightarrow> json list \<times> py_exn option" where
  "yield_contents [] ending = ([], ending)"
| "yield_contents (payload # rest) ending =
     (case delta_content payload of
        Inl e \<Rightarrow> ([], Some e)
      | Inr c \<Rightarrow>
          (case yield_contents rest ending of
             (chunks, e) \<Rightarrow> ((if truthy c then [c] else []) @ chunks, e)))"

text \<open>
  \<open>stream_chat\<close>: the chunks it yields and the exception that ends the iteration, if
  any.
\<close>

definition stream_chat ::
  "Settings \<Rightarrow> upstream \<Rightarrow> message list \<Rightarrow> (json list \<times> py_exn option) \<times> http_call list"
  where
  "stream_chat settings up messages =
     (let payload = \<lparr> cp_model = model_name (model settings), cp_messages = messages,
                      cp_temperature = temperature (model settings),
                      cp_top_p = top_p (model settings),
                      cp_max_tokens = max_tokens (model settings),
                      cp_stream = True \<rparr>
      in case require_api_key settings of
           Inl e \<Rightarrow> (([], Some e), [])
         | Inr key \<Rightarrow>
             ((case stream_reply up of
                 StreamRejected status reason \<Rightarrow>
                   ([], Some (HTTPStatusError status None reason))
               | StreamOpened payloads ending \<Rightarrow> yield_contents payloads ending),
              [StreamCompletion (base_url settings) payload]))"

subsection \<open>RetrievalClient\<close>

text \<open>\<open>a or b\<close> for an optional integer \<open>a\<close> and an integer \<open>b\<close>.\<close>

definition int_or :: "int option \<Rightarrow> int \<Rightarrow> int" where
  "int_or a b = (case a of None \<Rightarrow> b | Some n \<Rightarrow> if n \<noteq> 0 then n else b)"

text \<open>\<open>str.lower()\<close> below 256.\<close>

definition lower_char :: "char \<Rightarrow> char" where
  "lower_char c =
     (let n = (of_char c :: nat)
      in if (65 \<le> n \<and> n \<le> 90) \<or> (192 \<le> n \<and> n \<le> 222 \<and> n \<noteq> 215)
         then char_of (n + 32) else c)"

definition py_lower :: "string \<Rightarrow> string" where
  "py_lower s = map lower_char s"

definition maybe_str :: "py_builtins \<Rightarrow> json \<Rightarrow> string option" where
  "maybe_str py v =
     (case v of JNull \<Rightarrow> None | JStr s \<Rightarrow> Some s | _ \<Rightarrow> Some (str_of py v))"

text \<open>The builtin \<open>float(value)\<close>.\<close>

fun py_float :: "py_builtins \<Rightarrow> json \<Rightarrow> py_exn + pyfloat" where
  "py_float py JNull = Inl TypeError"
| "py_float py (JBool b) = Inr (FloatVal (if b then 1 else 0))"
| "py_float py (JInt n) =
     (case float_of_int py n of None \<Rightarrow> Inl OverflowError | Some f \<Rightarrow> Inr f)"
| "py_float py (JFloat f) = Inr f"
| "py_float py (JStr s) =
     (case float_of_str py s of None \<Rightarrow> Inl ValueError | Some f \<Rightarrow> Inr f)"
| "py_float py (JList xs) = Inl TypeError"
| "py_float py (JDict kvs) = Inl TypeError"

definition maybe_float :: "py_builtins \<Rightarrow> json \<Rightarrow> py_exn + pyfloat option" where
  "maybe_float py v =
     (if v = JNull then Inr None
      else case py_float py v of
             Inr f \<Rightarrow> Inr (Some f)
           | Inl TypeError \<Rightarrow> Inr None
           | Inl ValueError \<Rightarrow> Inr None
           | Inl e \<Rightarrow> Inl e)"

definition opt_float_truthy :: "pyfloat option \<Rightarrow> bool" where
  "opt_float_truthy v = (case v of None \<Rightarrow> False | Some f \<Rightarrow> float_truthy f)"

text \<open>
  The \<open>score=\<close> argument (lines 215 to 217):
  \<open>_maybe_float(combined_score) or _maybe_float(rerank_score) or _maybe_float(score)\<close>.
\<close>

definition score_of_item :: "py_builtins \<Rightarrow> json \<Rightarrow> py_exn + pyfloat option" where
  "score_of_item py item =
     and_then (dict_get item ''combined_score'') (\<lambda>v.
     and_then (maybe_float py v) (\<lambda>a.
       if opt_float_truthy a then Inr a
       else
         and_then (dict_get item ''rerank_score'') (\<lambda>v.
         and_then (maybe_float py v) (\<lambda>b.
           if opt_float_truthy b then Inr b
           else and_then (dict_get item ''score'') (maybe_float py)))))"

text \<open>
  One round of the loop over \<open>docs_payload\<close>: \<open>None\<close> when the item is skipped. The
  arguments of \<open>RetrievedDocument(...)\<close> are evaluated first; the constructor then
  validates them. All but \<open>source\<close> and \<open>source_text\<close> are of their field's type by
  then.
\<close>

definition normalize_item :: "py_builtins \<Rightarrow> json \<Rightarrow> py_exn + RetrievedDocument option" where
  "normalize_item py item =
     and_then (dict_get item ''text'') (\<lambda>t.
     and_then (if truthy t then Inr t
               else and_then (dict_get item ''name'') (\<lambda>n. Inr (py_or n (JStr [])))) (\<lambda>v.
     and_then (strip_method v) (\<lambda>content.
       if content = [] then Inr None
       else
         and_then (dict_get item ''source_text'') (\<lambda>source_text.
         and_then (dict_get item ''id'') (\<lambda>i.
         and_then (dict_get item ''name'') (\<lambda>n.
         and_then (score_of_item py item) (\<lambda>sc.
         and_then (dict_get item ''chunk_id'') (\<lambda>ci.
         and_then (dict_get item ''type'') (\<lambda>ty.
         and_then (dict_get item ''origin_id'') (\<lambda>oi.
         and_then (dict_get item ''source'') (\<lambda>src.
         and_then (optional_dict_field py src) (\<lambda>valid_source.
         and_then (optional_str_field py
                     (case source_text of JStr s \<Rightarrow> JStr (py_strip s) | other \<Rightarrow> other))
           (\<lambda>valid_source_text.
           Inr (Some \<lparr> doc_id = maybe_str py i, title = maybe_str py n,
                       content = content, score = sc,
                       chunk_id = maybe_str py ci, chunk_type = maybe_str py ty,
                       origin_id = maybe_str py oi,
                       source_text = valid_source_text,
                       source = valid_source \<rparr>))))))))))))))"

fun normalize_items :: "py_builtins \<Rightarrow> json list \<Rightarrow> py_exn + RetrievedDocument list" where
  "normalize_items py [] = Inr []"
| "normalize_items py (item # rest) =
     and_then (normalize_item py item) (\<lambda>d.
     and_then (normalize_items py rest) (\<lambda>ds.
       Inr (case d of None \<Rightarrow> ds | Some doc \<Rightarrow> doc # ds)))"

text \<open>\<open>for item in value\<close>: the items a value yields when iterated.\<close>

fun iterate :: "json \<Rightarrow> py_exn + json list" where
  "iterate (JList xs) = Inr xs"
| "iterate (JDict kvs) = Inr (map (\<lambda>kv. JStr (fst kv)) kvs)"
| "iterate (JStr s) = Inr (map (\<lambda>c. JStr [c]) s)"
| "iterate _ = Inl TypeError"

text \<open>Lines 198 to 225 of \<open>retrieve\<close>: the documents for the decoded reply \<open>data\<close>.\<close>

definition documents_from_reply :: "py_builtins \<Rightarrow> json \<Rightarrow> py_exn + RetrievedDocument list"
  where
  "documents_from_reply py data =
     and_then (case data of
                 JList xs \<Rightarrow> Inr data
               | _ \<Rightarrow> and_then (dict_get data ''results'') (\<lambda>r. Inr (py_or r (JList []))))
       (\<lambda>docs_payload. and_then (iterate docs_payload) (normalize_items py))"

text \<open>Lines 157 to 180 of \<open>retrieve\<close>: the request body.\<close>

definition retrieve_payload ::
  "Settings \<Rightarrow> string \<Rightarrow> int option \<Rightarrow> bool option \<Rightarrow> string option \<Rightarrow> int option
     \<Rightarrow> retrieval_payload" where
  "retrieve_payload settings q top_k_arg use_rerank_arg rerank_mode_arg rerank_top_k_arg =
     (let cfg = retrieval settings;
          effective_top_k = int_or top_k_arg (top_k cfg);
          effective_use_rerank =
            (case use_rerank_arg of None \<Rightarrow> use_rerank cfg | Some b \<Rightarrow> b);
          mode = (case rerank_mode_arg of
                    None \<Rightarrow> rerank_mode cfg
                  | Some m \<Rightarrow> if m \<noteq> [] then m else rerank_mode cfg);
          effective_rerank_mode = (if mode \<noteq> [] then Some (py_lower mode) else None);
          effective_rerank_top_k =
            int_or rerank_top_k_arg (int_or (rerank_top_k cfg) effective_top_k)
      in \<lparr> rp_query = q, rp_k = effective_top_k, rp_use_rerank = effective_use_rerank,
           rp_rerank_mode = effective_rerank_mode,
           rp_rerank_top_k =
             (if effective_use_rerank \<and> effective_rerank_top_k \<noteq> 0
              then Some effective_rerank_top_k else None) \<rparr>)"

definition retrieve ::
  "py_builtins \<Rightarrow> Settings \<Rightarrow> upstream \<Rightarrow> string \<Rightarrow> int option \<Rightarrow> bool option
     \<Rightarrow> string option \<Rightarrow> int option
     \<Rightarrow> (py_exn + RetrievedDocument list) \<times> http_call list" where
  "retrieve py settings up q top_k_arg use_rerank_arg rerank_mode_arg rerank_top_k_arg =
     (if url (retrieval settings) = []
      then (Inl (RuntimeError ''RAG_API_URL is not configured''), [])
      else
        let payload = retrieve_payload settings q top_k_arg use_rerank_arg
                        rerank_mode_arg rerank_top_k_arg
        in (and_then (retrieval_reply up) (documents_from_reply py),
            [PostRetrieval (url (retrieval settings)) payload]))"

section \<open>The handler (main.py)\<close>

text \<open>\<open>xs[:n]\<close>: a negative \<open>n\<close> counts from the end.\<close>

definition slice_to :: "'a list \<Rightarrow> int \<Rightarrow> 'a list" where
  "slice_to xs n = (if 0 \<le> n then take (nat n) xs else take (length xs - nat (- n)) xs)"

definition trim_documents ::
  "Settings \<Rightarrow> RetrievedDocument list \<Rightarrow> int option \<Rightarrow> RetrievedDocument list" where
  "trim_documents settings docs limit =
     (let max_docs = int_or limit (top_k (retrieval settings)) in slice_to docs max_docs)"

definition extract_answer :: "json \<Rightarrow> py_exn + string" where
  "extract_answer raw =
     and_then (dict_get raw ''choices'') (\<lambda>c.
       let choices = py_or c (JList []) in
       if \<not> truthy choices then Inl (HTTPException 502 ''SiliconFlow returned no choices'')
       else
         and_then (subscript0 choices) (\<lambda>choice.
         and_then (dict_get choice ''message'') (\<lambda>m.
           let message = py_or m (JDict []) in
           and_then (dict_get message ''content'') (\<lambda>c.
           and_then (strip_method (py_or c (JStr []))) (\<lambda>content.
             if content = []
             then Inl (HTTPException 502 ''Choice contained no message content'')
             else Inr content)))))"

text \<open>
  \<open>Usage(**usage_payload)\<close> needs a mapping; keys other than the three fields are
  ignored.
\<close>

definition extract_usage :: "py_builtins \<Rightarrow> json \<Rightarrow> py_exn + Usage option" where
  "extract_usage py raw =
     and_then (dict_get raw ''usage'') (\<lambda>usage_payload.
       if \<not> truthy usage_payload then Inr None
       else case usage_payload of
              JDict kvs \<Rightarrow>
                and_then (dict_get usage_payload ''prompt_tokens'') (\<lambda>p.
                and_then (optional_int_field py p) (\<lambda>pt.
                and_then (dict_get usage_payload ''completion_tokens'') (\<lambda>c.
                and_then (optional_int_field py c) (\<lambda>ct.
                and_then (dict_get usage_payload ''total_tokens'') (\<lambda>t.
                and_then (optional_int_field py t) (\<lambda>tt.
                  Inr (Some \<lparr> prompt_tokens = pt, completion_tokens = ct,
                              total_tokens = tt \<rparr>)))))))
            | _ \<Rightarrow> Inl TypeError)"

text \<open>\<open>raw_response.get("model", default)\<close>.\<close>

definition model_of_reply :: "json \<Rightarrow> string \<Rightarrow> py_exn + json" where
  "model_of_reply raw default_name =
     (case raw of
        JDict kvs \<Rightarrow> Inr (case map_of kvs ''model'' of None \<Rightarrow> JStr default_name | Some v \<Rightarrow> v)
      | _ \<Rightarrow> Inl AttributeError)"

text \<open>
  An SSE frame (an \<open>event:\<close> line, a \<open>data:\<close> line and a blank line) is kept as its
  event name and its payload: a \<open>str\<close> as it is, the \<open>json.dumps\<close> of any other chunk,
  or one of the three objects the handler sends. The encoding to bytes is left out.
\<close>

datatype sse_data =
    Text string
  | Dumped json
  | MetaObject string "RetrievedDocument list"
  | AnswerObject string
  | MessageObject string

record sse_frame =
  event :: string
  data :: sse_data

definition sse :: "string \<Rightarrow> sse_data \<Rightarrow> sse_frame" where
  "sse ev d = \<lparr> event = ev, data = d \<rparr>"

text \<open>The payload \<open>_sse\<close> gives a chunk.\<close>

definition chunk_data :: "json \<Rightarrow> sse_data" where
  "chunk_data chunk = (case chunk of JStr s \<Rightarrow> Text s | _ \<Rightarrow> Dumped chunk)"

text \<open>
  The \<open>async for\<close> loop of the generator over the chunks \<open>stream_chat\<close> yields: the
  frames sent and the buffer afterwards.
\<close>

fun delta_loop :: "json list \<Rightarrow> json list \<Rightarrow> sse_frame list \<times> json list" where
  "delta_loop buffer [] = ([], buffer)"
| "delta_loop buffer (chunk # rest) =
     (case delta_loop (buffer @ [chunk]) rest of
        (frames, buffer') \<Rightarrow> (sse ''delta'' (chunk_data chunk) # frames, buffer'))"

text \<open>\<open>"".join(buffer)\<close>: TypeError when an item is not a \<open>str\<close>.\<close>

fun join_buffer :: "json list \<Rightarrow> py_exn + string" where
  "join_buffer [] = Inr []"
| "join_buffer (JStr s # rest) = and_then (join_buffer rest) (\<lambda>t. Inr (s @ t))"
| "join_buffer (other # rest) = Inl TypeError"

text \<open>
  The generator of \<open>_streaming_response\<close>, run to its end: the frames it yields, and
  the exception that leaves it, if one does. An exception raised inside an \<open>except\<close>
  clause, or after the \<open>try\<close> statement, leaves the generator.
\<close>

definition streaming_response ::
  "Settings \<Rightarrow> upstream \<Rightarrow> message list \<Rightarrow> RetrievedDocument list
     \<Rightarrow> (sse_frame list \<times> py_exn option) \<times> http_call list" where
  "streaming_response settings up messages docs =
     (case stream_chat settings up messages of
        ((chunks, ending), calls) \<Rightarrow>
          (case delta_loop [] chunks of
             (deltas, buffer) \<Rightarrow>
               (let meta = sse ''meta'' (MetaObject (model_name (model settings)) docs)
                in case ending of
                     None \<Rightarrow>
                       (case join_buffer buffer of
                          Inl e \<Rightarrow> ((meta # deltas, Some e), calls)
                        | Inr joined \<Rightarrow>
                            ((meta # deltas @ [sse ''end'' (AnswerObject (py_strip joined))],
                              None), calls))
                   | Some (RuntimeError msg) \<Rightarrow>
                       ((meta # deltas @ [sse ''error'' (MessageObject msg)], None), calls)
                   | Some (HTTPStatusError status body reason) \<Rightarrow>
                       (case text_or_reason body reason of
                          Inl e \<Rightarrow> ((meta # deltas, Some e), calls)
                        | Inr detail \<Rightarrow>
                            ((meta # deltas @
                                [sse ''error'' (MessageObject (''Upstream error: '' @ detail))],
                              None), calls))
                   | Some HTTPError \<Rightarrow>
                       ((meta # deltas @
                           [sse ''error'' (MessageObject ''Upstream SiliconFlow request failed'')],
                         None), calls)
                   | Some e \<Rightarrow> ((meta # deltas, Some e), calls))))"

text \<open>What \<open>/chat\<close> answers with: a \<open>ChatResponse\<close>, or a \<open>StreamingResponse\<close>.\<close>

datatype chat_result =
    Buffered ChatResponse
  | Streamed "sse_frame list" "py_exn option"

text \<open>
  The \<open>except\<close> clauses around the three calls. \<open>retrieval_failure\<close> and
  \<open>completion_failure\<close> give the exception that leaves the handler.
\<close>

definition rewrite_failure_caught :: "py_exn \<Rightarrow> bool" where
  "rewrite_failure_caught e =
     (case e of RuntimeError msg \<Rightarrow> True | HTTPStatusError st body reason \<Rightarrow> True
      | HTTPError \<Rightarrow> True | _ \<Rightarrow> False)"

definition retrieval_failure :: "py_exn \<Rightarrow> py_exn" where
  "retrieval_failure e =
     (case e of
        RuntimeError msg \<Rightarrow> HTTPException 500 msg
      | HTTPStatusError status body reason \<Rightarrow>
          (case text_or_reason body reason of
             Inl raised \<Rightarrow> raised
           | Inr detail \<Rightarrow> HTTPException status (''Retriever error: '' @ detail))
      | HTTPError \<Rightarrow> HTTPException 502 ''Retriever request failed''
      | _ \<Rightarrow> e)"

definition completion_failure :: "py_exn \<Rightarrow> py_exn" where
  "completion_failure e =
     (case e of
        RuntimeError msg \<Rightarrow> HTTPException 500 msg
      | HTTPStatusError status body reason \<Rightarrow>
          (case text_or_reason body reason of
             Inl raised \<Rightarrow> raised
           | Inr detail \<Rightarrow> HTTPException status detail)
      | HTTPError \<Rightarrow> HTTPException 502 ''Upstream SiliconFlow request failed''
      | _ \<Rightarrow> e)"

text \<open>Lines 72 to 78 of \<open>chat\<close>: the query used for retrieval.\<close>

definition rewritten_query ::
  "Settings \<Rightarrow> upstream \<Rightarrow> ChatRequest \<Rightarrow> (py_exn + string) \<times> http_call list" where
  "rewritten_query settings up request =
     (if enabled (rewriter settings)
      then (case rewrite_query settings up (query request) of
              (Inr q, calls) \<Rightarrow> (Inr q, calls)
            | (Inl e, calls) \<Rightarrow>
                if rewrite_failure_caught e then (Inr (query request), calls)
                else (Inl e, calls))
      else (Inr (query request), []))"

text \<open>
  Lines 113 to 134 of \<open>chat\<close>: the buffered answer. \<open>ChatResponse(...)\<close> validates its
  arguments; all but \<open>model\<close> are of their field's type by then.
\<close>

definition buffered_answer ::
  "py_builtins \<Rightarrow> Settings \<Rightarrow> upstream \<Rightarrow> message list \<Rightarrow> RetrievedDocument list
     \<Rightarrow> (py_exn + chat_result) \<times> http_call list" where
  "buffered_answer py settings up messages trimmed_docs =
     (case client_chat settings up messages of
        (Inl e, calls) \<Rightarrow> (Inl (completion_failure e), calls)
      | (Inr raw, calls) \<Rightarrow>
          (and_then (extract_answer raw) (\<lambda>ans.
           and_then (extract_usage py raw) (\<lambda>us.
           and_then (model_of_reply raw (model_name (model settings))) (\<lambda>name.
           and_then (str_field py name) (\<lambda>valid_name.
             Inr (Buffered \<lparr> answer = ans, cr_model = valid_name, usage = us,
                             raw_response = raw, documents = trimmed_docs \<rparr>))))),
           calls))"

definition chat ::
  "py_builtins \<Rightarrow> Settings \<Rightarrow> upstream \<Rightarrow> ChatRequest
     \<Rightarrow> (py_exn + chat_result) \<times> http_call list" where
  "chat py settings up request =
     (case rewritten_query settings up request of
        (Inl e, calls1) \<Rightarrow> (Inl e, calls1)
      | (Inr rewritten, calls1) \<Rightarrow>
          (case retrieve py settings up rewritten (req_top_k request)
                  (req_use_rerank request) (req_rerank_mode request)
                  (req_rerank_top_k request) of
             (Inl e, calls2) \<Rightarrow> (Inl (retrieval_failure e), calls1 @ calls2)
           | (Inr retrieved_docs, calls2) \<Rightarrow>
               (let trimmed_docs = trim_documents settings retrieved_docs None;
                    messages = build_messages py (query request) trimmed_docs
                in if req_stream request
                   then (case streaming_response settings up messages trimmed_docs of
                           ((frames, raised), calls3) \<Rightarrow>
                             (Inr (Streamed frames raised), calls1 @ calls2 @ calls3))
                   else (case buffered_answer py settings up messages trimmed_docs of
                           (result, calls3) \<Rightarrow> (result, calls1 @ calls2 @ calls3)))))"

section \<open>Replies without an answer\<close>

text \<open>
  The completion replies that hold no answer, as claim C8 describes them: a
  well-formed object whose \<open>choices\<close> list is empty, or whose first choice has no
  message content, or content that is empty after trimming.
\<close>

definition content_blank :: "json \<Rightarrow> bool" where
  "content_blank v = (case v of JNull \<Rightarrow> True | JStr s \<Rightarrow> py_strip s = [] | _ \<Rightarrow> False)"

fun message_blank :: "json option \<Rightarrow> bool" where
  "message_blank None = True"
| "message_blank (Some JNull) = True"
| "message_blank (Some (JDict mkvs)) =
     content_blank (case map_of mkvs ''content'' of None \<Rightarrow> JNull | Some v \<Rightarrow> v)"
| "message_blank (Some other) = False"

fun choices_answerless :: "json option \<Rightarrow> bool" where
  "choices_answerless (Some (JList [])) = True"
| "choices_answerless (Some (JList (JDict ckvs # others))) =
     message_blank (map_of ckvs ''message'')"
| "choices_answerless other = False"

fun answerless_reply :: "json \<Rightarrow> bool" where
  "answerless_reply (JDict kvs) = choices_answerless (map_of kvs ''choices'')"
| "answerless_reply other = False"

section \<open>Concrete runs\<close>

text \<open>
  Values for evaluating the service at concrete inputs. \<open>inert_builtins\<close> is for runs
  that consult none of the parameters: no score field holds an integer or a string,
  no identifier field holds anything but a string, no document shown in a prompt has
  a score, and every validated field is absent or of its type.
\<close>

definition inert_builtins :: py_builtins where
  "inert_builtins =
     \<lparr> float_of_int = (\<lambda>n. None), float_of_str = (\<lambda>s. None),
       str_of = (\<lambda>v. []), format_3f = (\<lambda>x. []),
       coerce_str = (\<lambda>v. None), coerce_dict = (\<lambda>v. None), coerce_int = (\<lambda>v. None) \<rparr>"

text \<open>The completion reply \<open>{"choices": [{"message": {"content": c}}]}\<close>.\<close>

definition completion_reply :: "string \<Rightarrow> json" where
  "completion_reply c =
     JDict [(''choices'', JList [JDict [(''message'', JDict [(''content'', JStr c)])]])]"

text \<open>The retrieval item \<open>{"text": t}\<close>.\<close>

definition text_item :: "string \<Rightarrow> json" where
  "text_item t = JDict [(''text'', JStr t)]"

text \<open>The streamed payload \<open>{"choices": [{"delta": {"content": c}}]}\<close>.\<close>

definition delta_payload :: "json \<Rightarrow> json" where
  "delta_payload c = JDict [(''choices'', JList [JDict [(''delta'', JDict [(''content'', c)])]])]"

definition sample_upstream :: upstream where
  "sample_upstream =
     \<lparr> rewrite_reply =
         Inr (completion_reply ''Keep the intent. <rewrite> light tofu soup recipe </rewrite> ''),
       retrieval_reply = Inr (JList [text_item ''Tofu soup: simmer tofu in stock.'']),
       chat_reply = Inr (completion_reply ''Simmer the tofu gently.''),
       stream_reply =
         StreamOpened [delta_payload (JStr ''Simmer the ''), delta_payload (JStr ''tofu gently.'')]
           None \<rparr>"

definition sample_request :: ChatRequest where
  "sample_request =
     \<lparr> query = ''tofu soup'', req_top_k = None, req_stream = False,
       req_use_rerank = None, req_rerank_mode = None, req_rerank_top_k = None \<rparr>"

text \<open>The sample request with \<open>rerank_top_k\<close> given.\<close>

definition rerank_request :: ChatRequest where
  "rerank_request = sample_request \<lparr> req_rerank_top_k := Some 3 \<rparr>"

text \<open>
  The retrieval item \<open>{"text": "Tofu soup", "combined_score": c, "rerank_score": r,
  "score": s}\<close> and the document it becomes with the score \<open>sc\<close>.
\<close>

definition scored_item :: "pyfloat \<Rightarrow> json \<Rightarrow> json \<Rightarrow> json" where
  "scored_item c r s =
     JDict [(''text'', JStr ''Tofu soup''), (''combined_score'', JFloat c),
            (''rerank_score'', r), (''score'', s)]"

definition plain_document :: "string \<Rightarrow> pyfloat option \<Rightarrow> RetrievedDocument" where
  "plain_document c sc =
     \<lparr> doc_id = None, title = None, content = c, score = sc, chunk_id = None,
       chunk_type = None, origin_id = None, source_text = None, source = None \<rparr>"

definition plain_documents :: "string list \<Rightarrow> RetrievedDocument list" where
  "plain_documents cs = map (\<lambda>c. plain_document c None) cs"

text \<open>Six retrieved items, and a request that asks for six documents.\<close>

definition six_items :: json where
  "six_items =
     JList [text_item ''d1'', text_item ''d2'', text_item ''d3'',
            text_item ''d4'', text_item ''d5'', text_item ''d6'']"

definition top_six_request :: ChatRequest where
  "top_six_request = sample_request \<lparr> req_top_k := Some 6 \<rparr>"

text \<open>The default settings with no retrieval endpoint.\<close>

definition settings_without_retrieval :: Settings where
  "settings_without_retrieval =
     default_settings \<lparr> retrieval := (retrieval default_settings) \<lparr> url := [] \<rparr> \<rparr>"

text \<open>
  The sample peers with six items retrieved, and with the completion reply
  \<open>{"choices": []}\<close>.
\<close>

definition six_items_upstream :: upstream where
  "six_items_upstream = sample_upstream \<lparr> retrieval_reply := Inr six_items \<rparr>"

definition no_choices_upstream :: upstream where
  "no_choices_upstream = sample_upstream \<lparr> chat_reply := Inr (JDict [(''choices'', JList [])]) \<rparr>"

section \<open>Facts about the string methods\<close>

lemma split_acc_nonempty: "split_acc sep cur s \<noteq> []"
  by (induction sep cur s rule: split_acc.induct) auto

lemma split_acc_no_occurrence:
  "\<not> sublist sep s \<Longrightarrow> split_acc sep cur s = [cur @ s]"
proof (induction sep cur s rule: split_acc.induct)
  case (1 sep cur)
  then show ?case by simp
next
  case (2 sep cur c cs)
  have np: "\<not> prefix sep (c # cs)"
    using 2(3) by (auto simp: sublist_Cons_right)
  have ns: "\<not> sublist sep cs"
    using 2(3) by (auto simp: sublist_Cons_right)
  show ?case using 2(2)[OF np ns] np by simp
qed

lemma sublist_skip:
  assumes "sep \<noteq> []" "hd sep \<notin> set u" "sublist sep (u @ v)"
  shows "sublist sep v"
  using assms
proof (induction u)
  case Nil
  then show ?case by simp
next
  case (Cons a u)
  have "\<not> prefix sep (a # u @ v)"
    using Cons.prems(1,2) by (cases sep) auto
  then have "sublist sep (u @ v)"
    using Cons.prems(3) by (auto simp: sublist_Cons_right)
  then show ?case using Cons by simp
qed

lemma before_last_none:
  "sep \<noteq> [] \<Longrightarrow> \<not> sublist sep s \<Longrightarrow> before_last sep s = None"
  by (induction s) (auto simp: sublist_Cons_right)

lemma before_last_at_marker:
  assumes "sep \<noteq> []" "hd sep \<notin> set (tl sep)" "\<not> sublist sep post"
  shows "before_last sep (x @ sep @ post) = Some x"
proof (induction x)
  case Nil
  obtain a t where sep: "sep = a # t" using assms(1) by (cases sep) auto
  have "\<not> sublist sep (t @ post)"
    using sublist_skip[of sep t post] assms sep by auto
  then have "before_last sep (t @ post) = None"
    using before_last_none assms(1) by blast
  then show ?case using sep by simp
next
  case (Cons a x)
  then show ?case by simp
qed

lemma last_split_acc:
  assumes "sep \<noteq> []" "hd sep \<notin> set (tl sep)" "\<not> sublist sep rest"
  shows "last (split_acc sep cur (pre @ sep @ rest)) = rest"
proof (induction "length pre" arbitrary: pre cur rule: less_induct)
  case less
  show ?case
  proof (cases pre)
    case Nil
    obtain a t where sep: "sep = a # t" using assms(1) by (cases sep) auto
    have "split_acc sep cur (sep @ rest) = cur # split_acc sep [] rest"
      using sep by simp
    then show ?thesis using Nil split_acc_no_occurrence[OF assms(3)] by simp
  next
    case (Cons c pre')
    show ?thesis
    proof (cases "prefix sep (pre @ sep @ rest)")
      case True
      obtain a t where sep: "sep = a # t" using assms(1) by (cases sep) auto
      have "prefix sep pre"
      proof (rule ccontr)
        assume np: "\<not> prefix sep pre"
        from True np obtain us where us: "sep = pre @ us" "prefix us (sep @ rest)"
          unfolding prefix_append by blast
        have "us \<noteq> []" using np us(1) by (cases us) simp_all
        then obtain u us' where u: "us = u # us'" by (cases us) auto
        have "prefix (u # us') (a # t @ rest)" using us(2) unfolding u sep by simp
        then have "u = a" by simp
        moreover have "tl sep = pre' @ us" using us(1) unfolding Cons by (cases sep) simp_all
        then have "u \<in> set (tl sep)" unfolding u by simp
        moreover have "hd sep = a" unfolding sep by simp
        ultimately show False using assms(2) by simp
      qed
      then obtain pre2 where pre2: "pre = sep @ pre2" unfolding prefix_def by blast
      have "split_acc sep cur ((a # t) @ pre2 @ (a # t) @ rest) = cur # split_acc sep [] (pre2 @ (a # t) @ rest)"
        unfolding sep by simp
      then have "split_acc sep cur (pre @ sep @ rest) = cur # split_acc sep [] (pre2 @ sep @ rest)"
        unfolding pre2 sep by simp
      moreover have "length pre2 < length pre" unfolding pre2 sep by simp
      moreover have "last (split_acc sep [] (pre2 @ sep @ rest)) = rest"
        using less[of pre2 "[]"] \<open>length pre2 < length pre\<close> by blast
      ultimately show ?thesis
        using split_acc_nonempty[of sep "[]" "pre2 @ sep @ rest"] by simp
    next
      case False
      have "split_acc sep cur (c # pre' @ sep @ rest) = split_acc sep (cur @ [c]) (pre' @ sep @ rest)"
        using False unfolding Cons by simp
      moreover have "last (split_acc sep (cur @ [c]) (pre' @ sep @ rest)) = rest"
        using less[of pre' "cur @ [c]"] unfolding Cons by simp
      ultimately show ?thesis unfolding Cons by simp
    qed
  qed
qed

lemma dropWhile_keeps_tail:
  "ys \<noteq> [] \<Longrightarrow> \<not> P (hd ys) \<Longrightarrow> dropWhile P (xs @ ys) = dropWhile P xs @ ys"
  by (induction xs) (auto simp: neq_Nil_conv)

lemma rstrip_prefix: "prefix (rev (dropWhile P (rev xs))) xs"
proof -
  have "rev xs = takeWhile P (rev xs) @ dropWhile P (rev xs)" by simp
  then have "xs = rev (dropWhile P (rev xs)) @ rev (takeWhile P (rev xs))"
    by (metis rev_append rev_rev_ident)
  then show ?thesis by (metis prefixI)
qed

lemma py_strip_around:
  assumes "body \<noteq> []" "\<not> is_space (hd body)" "\<not> is_space (last body)"
  shows "py_strip (pre @ body @ post) =
           dropWhile is_space pre @ body @ rev (dropWhile is_space (rev post))"
proof -
  have "dropWhile is_space (pre @ body @ post) = dropWhile is_space pre @ body @ post"
    using assms(1,2) dropWhile_keeps_tail[of "body @ post" is_space pre] by simp
  moreover have "dropWhile is_space (rev post @ rev body @ rev (dropWhile is_space pre)) =
      dropWhile is_space (rev post) @ rev body @ rev (dropWhile is_space pre)"
    using assms(1,3) dropWhile_keeps_tail[of "rev body @ rev (dropWhile is_space pre)" is_space "rev post"]
    by (simp add: hd_rev)
  ultimately show ?thesis by (simp add: py_strip_def)
qed

lemma no_marker_in_rstrip:
  assumes "\<not> sublist m (u @ post)"
  shows "\<not> sublist m (u @ rev (dropWhile P (rev post)))"
proof -
  obtain w where "post = rev (dropWhile P (rev post)) @ w"
    using rstrip_prefix[of P post] by (auto simp: prefix_def)
  then have "u @ post = (u @ rev (dropWhile P (rev post))) @ w" by simp
  then show ?thesis using assms
    by (metis sublist_appendI sublist_order.order_trans sublist_order.order_refl append_Nil)
qed

lemma extract_marked:
  assumes "\<not> sublist ''<rewrite>'' (x @ ''</rewrite>'' @ post)"
      and "\<not> sublist ''</rewrite>'' post"
  shows "hd (py_rsplit1 (last (py_split (pre @ ''<rewrite>'' @ x @ ''</rewrite>'' @ post) ''<rewrite>'')) ''</rewrite>'') = x"
proof -
  have "last (split_acc ''<rewrite>'' [] (pre @ ''<rewrite>'' @ (x @ ''</rewrite>'' @ post))) = x @ ''</rewrite>'' @ post"
    by (rule last_split_acc) (use assms(1) in simp_all)
  moreover have "before_last ''</rewrite>'' (x @ ''</rewrite>'' @ post) = Some x"
    by (rule before_last_at_marker) (use assms(2) in simp_all)
  ultimately show ?thesis by (simp add: py_split_def py_rsplit1_def)
qed

lemma rewrite_from_reply_content:
  assumes "map_of kvs ''choices'' = Some (JList (JDict ckvs # others))"
    and "map_of ckvs ''message'' = Some (JDict mkvs)"
    and "map_of mkvs ''content'' = Some (JStr c)"
    and "py_strip c \<noteq> []"
  shows "rewrite_from_reply q (JDict kvs) =
     Inr (py_strip (hd (py_rsplit1 (last (py_split (py_strip c) ''<rewrite>'')) ''</rewrite>'')))"
proof -
  have "mkvs \<noteq> []" using assms(3) by auto
  moreover have "c \<noteq> []" using assms(4) by (auto simp: py_strip_def)
  ultimately show ?thesis
    using assms by (simp add: rewrite_from_reply_def and_then_def py_or_def)
qed

section \<open>Facts about replies without content\<close>

text \<open>
  Both readers of a completion reply (\<open>rewrite_query\<close> and \<open>_extract_answer\<close>) take the
  content of the first choice the same way; for a choice without content they
  continue with the empty string.
\<close>

lemma blank_content_strips_to_nothing:
  assumes "content_blank v"
  shows "strip_method (py_or v (JStr [])) = Inr []"
proof (cases v)
  case (JStr s)
  then show ?thesis
    using assms by (cases "s = []") (simp_all add: content_blank_def py_or_def py_strip_def)
qed (use assms in \<open>simp_all add: content_blank_def py_or_def py_strip_def\<close>)

lemma blank_message_content:
  assumes "message_blank (map_of ckvs ''message'')"
  shows "and_then (dict_get (JDict ckvs) ''message'') (\<lambda>m.
           let message = py_or m (JDict []) in
           and_then (dict_get message ''content'') (\<lambda>c.
           and_then (strip_method (py_or c (JStr []))) k)) = k []"
  using assms
proof (cases rule: message_blank.elims(2))
  case (3 mkvs)
  show ?thesis
  proof (cases "mkvs = []")
    case True
    then show ?thesis using 3(1) by (simp add: and_then_def py_or_def py_strip_def)
  next
    case False
    then show ?thesis
      using 3(1) blank_content_strips_to_nothing[OF 3(2)]
      by (simp add: and_then_def py_or_def)
  qed
qed (simp_all add: and_then_def py_or_def py_strip_def)

section \<open>The query rewriter\<close>

text \<open>
  Claim C9. When rewriting is disabled in the configuration, \<open>rewrite_query\<close> returns
  the query unchanged and sends no request.
\<close>

theorem rewrite_query_disabled_is_identity:
  "\<not> enabled (rewriter settings) \<Longrightarrow> rewrite_query settings up q = (Inr q, [])"
  by (simp add: rewrite_query_def)

theorem rewrite_query_disabled_witness:
  "\<not> enabled (rewriter (default_settings
        \<lparr> rewriter := (rewriter default_settings) \<lparr> enabled := False \<rparr> \<rparr>)) \<and>
   rewrite_query
     (default_settings \<lparr> rewriter := (rewriter default_settings) \<lparr> enabled := False \<rparr> \<rparr>)
     sample_upstream ''tofu soup'' = (Inr ''tofu soup'', [])"
  using rewrite_query_disabled_is_identity
    [of "default_settings \<lparr> rewriter := (rewriter default_settings) \<lparr> enabled := False \<rparr> \<rparr>"
        sample_upstream "''tofu soup''"]
  by (simp add: default_settings_def)

text \<open>
  Claim C5 says that the rewriter never returns the empty string. The fallback to the
  original query is taken when the reply has no choices or no content, but not after
  the markers are cut away: for the content \<open><rewrite></rewrite>\<close> the rewriter
  returns the empty string.
\<close>

theorem rewrite_query_empty_extraction:
  "fst (rewrite_query default_settings
         (sample_upstream \<lparr> rewrite_reply := Inr (completion_reply ''<rewrite></rewrite>'') \<rparr>)
         ''tofu soup'') = Inr []"
  by (simp add: rewrite_query_def default_settings_def sample_upstream_def
      completion_reply_def require_api_key_def and_then_def rewrite_from_reply_def
      py_or_def py_strip_def is_space_def py_split_def py_rsplit1_def Let_def)

text \<open>
  The fallbacks that are there: when the reply has an empty \<open>choices\<close> list, or its
  first choice has no content or blank content, the rewriter returns the original
  query.
\<close>

theorem rewrite_query_falls_back:
  assumes "enabled (rewriter settings)" and "api_key settings \<noteq> []"
    and "rewrite_reply up = Inr raw" and "answerless_reply raw"
  shows "fst (rewrite_query settings up q) = Inr q"
proof -
  have "rewrite_from_reply q raw = Inr q"
    using assms(4)
  proof (cases rule: answerless_reply.elims(2))
    case (1 kvs)
    from 1(2) show ?thesis
    proof (cases rule: choices_answerless.elims(2))
      case 1
      then show ?thesis
        using \<open>raw = JDict kvs\<close> by (simp add: rewrite_from_reply_def and_then_def py_or_def)
    next
      case (2 ckvs others)
      then show ?thesis
        using \<open>raw = JDict kvs\<close>
          blank_message_content[OF 2(2), of "\<lambda>content. if content = [] then Inr q
             else Inr (py_strip (hd (py_rsplit1 (last (py_split content ''<rewrite>''))
                                       ''</rewrite>'')))"]
        by (simp add: rewrite_from_reply_def and_then_def py_or_def)
    qed
  qed
  then show ?thesis
    using assms(1,2,3)
    by (simp add: rewrite_query_def require_api_key_def and_then_def Let_def)
qed

theorem rewrite_query_falls_back_witness:
  "enabled (rewriter default_settings) \<and> api_key default_settings \<noteq> [] \<and>
   rewrite_reply (sample_upstream \<lparr> rewrite_reply := Inr (completion_reply ''   '') \<rparr>) =
     Inr (completion_reply ''   '') \<and>
   answerless_reply (completion_reply ''   '') \<and>
   fst (rewrite_query default_settings
          (sample_upstream \<lparr> rewrite_reply := Inr (completion_reply ''   '') \<rparr>) ''tofu soup'') =
     Inr ''tofu soup''"
proof -
  have a: "enabled (rewriter default_settings)" "api_key default_settings \<noteq> []"
    by (simp_all add: default_settings_def)
  have b: "rewrite_reply (sample_upstream \<lparr> rewrite_reply := Inr (completion_reply ''   '') \<rparr>) =
     Inr (completion_reply ''   '')" by simp
  have c: "answerless_reply (completion_reply ''   '')"
    by (simp add: completion_reply_def content_blank_def py_strip_def is_space_def)
  show ?thesis
    using a b c rewrite_query_falls_back[OF a b c, of "''tofu soup''"] by simp
qed

text \<open>
  Claim C3, amended. When the content of the first choice is
  \<open>pre <rewrite> x </rewrite> post\<close>, no \<open><rewrite>\<close> occurs after the one shown and
  no \<open></rewrite>\<close> occurs in \<open>post\<close>, the rewriter returns \<open>x\<close> trimmed, whatever
  \<open>pre\<close> and \<open>post\<close> are otherwise: the text kept lies between the last start marker
  and the last end marker after it.
\<close>

theorem rewrite_query_extracts_marked_text:
  assumes "enabled (rewriter settings)" and "api_key settings \<noteq> []"
    and "rewrite_reply up = Inr (JDict kvs)"
    and "map_of kvs ''choices'' = Some (JList (JDict ckvs # others))"
    and "map_of ckvs ''message'' = Some (JDict mkvs)"
    and "map_of mkvs ''content'' =
           Some (JStr (pre @ ''<rewrite>'' @ x @ ''</rewrite>'' @ post))"
    and "\<not> sublist ''<rewrite>'' (x @ ''</rewrite>'' @ post)"
    and "\<not> sublist ''</rewrite>'' post"
  shows "fst (rewrite_query settings up q) = Inr (py_strip x)"
proof -
  let ?lpre = "dropWhile is_space pre"
  let ?rpost = "rev (dropWhile is_space (rev post))"
  let ?c = "pre @ ''<rewrite>'' @ x @ ''</rewrite>'' @ post"
  have "py_strip (pre @ (''<rewrite>'' @ x @ ''</rewrite>'') @ post) =
          ?lpre @ (''<rewrite>'' @ x @ ''</rewrite>'') @ ?rpost"
    by (rule py_strip_around) (simp_all add: is_space_def)
  then have strip: "py_strip ?c = ?lpre @ ''<rewrite>'' @ x @ ''</rewrite>'' @ ?rpost"
    by simp
  have n1: "\<not> sublist ''<rewrite>'' (x @ ''</rewrite>'' @ ?rpost)"
    using no_marker_in_rstrip[of "''<rewrite>''" "x @ ''</rewrite>''" post is_space] assms(7)
    by simp
  have n2: "\<not> sublist ''</rewrite>'' ?rpost"
    using no_marker_in_rstrip[of "''</rewrite>''" "[]" post is_space] assms(8) by simp
  have "hd (py_rsplit1 (last (py_split (py_strip ?c) ''<rewrite>'')) ''</rewrite>'') = x"
    unfolding strip by (rule extract_marked[OF n1 n2])
  moreover have "py_strip ?c \<noteq> []" unfolding strip by simp
  ultimately have "rewrite_from_reply q (JDict kvs) = Inr (py_strip x)"
    using rewrite_from_reply_content[OF assms(4,5,6)] by simp
  then show ?thesis
    using assms(1,2,3)
    by (simp add: rewrite_query_def require_api_key_def and_then_def Let_def)
qed

theorem rewrite_query_extracts_marked_text_witness:
  "fst (rewrite_query default_settings sample_upstream ''tofu soup'') =
     Inr ''light tofu soup recipe''"
proof -
  have "fst (rewrite_query default_settings sample_upstream ''tofu soup'') =
          Inr (py_strip '' light tofu soup recipe '')"
    by (rule rewrite_query_extracts_marked_text
          [where pre = "''Keep the intent. ''" and post = "'' ''" and others = "[]"
             and kvs = "[(''choices'', JList [JDict [(''message'', JDict [(''content'',
                          JStr ''Keep the intent. <rewrite> light tofu soup recipe </rewrite> '')])]])]"
             and ckvs = "[(''message'', JDict [(''content'',
                          JStr ''Keep the intent. <rewrite> light tofu soup recipe </rewrite> '')])]"
             and mkvs = "[(''content'',
                          JStr ''Keep the intent. <rewrite> light tofu soup recipe </rewrite> '')]"])
       (simp_all add: default_settings_def sample_upstream_def completion_reply_def
          sublist_Cons_right)
  then show ?thesis by (simp add: py_strip_def is_space_def)
qed

text \<open>
  The claim as stated fails where a second end marker follows: the content
  \<open><rewrite>stew</rewrite> not </rewrite>\<close> contains \<open><rewrite>stew</rewrite>\<close>, and
  the text before the first end marker after the last start marker is \<open>stew\<close>, but
  the rewriter returns everything up to the last end marker.
\<close>

theorem rewrite_query_last_end_marker_counterexample:
  "fst (rewrite_query default_settings
         (sample_upstream \<lparr> rewrite_reply :=
            Inr (completion_reply (''<rewrite>'' @ ''stew'' @ ''</rewrite>'' @ '' not </rewrite>'')) \<rparr>)
         ''tofu soup'') = Inr ''stew</rewrite> not'' \<and>
   ''stew</rewrite> not'' \<noteq> py_strip ''stew''"
  by (simp add: rewrite_query_def default_settings_def sample_upstream_def
      completion_reply_def require_api_key_def and_then_def rewrite_from_reply_def
      py_or_def py_strip_def is_space_def py_split_def py_rsplit1_def Let_def)

section \<open>The retrieval client\<close>

text \<open>
  Claim C6. \<open>retrieve\<close> is called by the handler alone, with the fields of a request
  that passed validation. For such a call, under a configuration that passed
  validation, the request sent carries, when reranking is effectively enabled, the
  \<open>rerank_top_k\<close> of the request if given, else the configured \<open>rerank_top_k\<close> if set,
  else the effective \<open>top_k\<close> (the \<open>k\<close> of the same body: the \<open>top_k\<close> of the request if
  given, else the configured one); the key is present exactly when reranking is
  effectively enabled.
\<close>

theorem retrieve_rerank_top_k_precedence:
  assumes "url (retrieval settings) \<noteq> []"
    and "valid_retrieval_config (retrieval settings)"
    and "valid_request request"
  shows "\<exists>p. snd (retrieve py settings up q (req_top_k request) (req_use_rerank request)
                    (req_rerank_mode request) (req_rerank_top_k request)) =
                 [PostRetrieval (url (retrieval settings)) p] \<and>
            rp_k p =
              (case req_top_k request of Some k \<Rightarrow> k | None \<Rightarrow> top_k (retrieval settings)) \<and>
            rp_use_rerank p =
              (case req_use_rerank request of
                 None \<Rightarrow> use_rerank (retrieval settings)
               | Some b \<Rightarrow> b) \<and>
            rp_rerank_top_k p =
              (if rp_use_rerank p
               then Some (case req_rerank_top_k request of
                            Some r \<Rightarrow> r
                          | None \<Rightarrow> (case rerank_top_k (retrieval settings) of
                                       Some c \<Rightarrow> c
                                     | None \<Rightarrow> rp_k p))
               else None)"
  using assms
  by (auto simp: retrieve_def retrieve_payload_def valid_retrieval_config_def valid_request_def
      int_or_def Let_def split: option.splits)

theorem retrieve_rerank_top_k_witness:
  "url (retrieval default_settings) \<noteq> [] \<and>
   valid_retrieval_config (retrieval default_settings) \<and>
   valid_request rerank_request \<and>
   snd (retrieve inert_builtins default_settings sample_upstream ''tofu soup''
          (req_top_k rerank_request) (req_use_rerank rerank_request)
          (req_rerank_mode rerank_request) (req_rerank_top_k rerank_request)) =
     [PostRetrieval ''http://localhost:8000/search/docs''
        \<lparr> rp_query = ''tofu soup'', rp_k = 5, rp_use_rerank = True,
          rp_rerank_mode = Some ''cross'', rp_rerank_top_k = Some 3 \<rparr>]"
proof -
  have a: "url (retrieval default_settings) \<noteq> []"
    by (simp add: default_settings_def)
  have b: "valid_retrieval_config (retrieval default_settings)"
    by (simp add: default_settings_def valid_retrieval_config_def)
  have c: "valid_request rerank_request"
    by (simp add: rerank_request_def sample_request_def valid_request_def)
  have d: "snd (retrieve inert_builtins default_settings sample_upstream ''tofu soup''
          (req_top_k rerank_request) (req_use_rerank rerank_request)
          (req_rerank_mode rerank_request) (req_rerank_top_k rerank_request)) =
     [PostRetrieval ''http://localhost:8000/search/docs''
        \<lparr> rp_query = ''tofu soup'', rp_k = 5, rp_use_rerank = True,
          rp_rerank_mode = Some ''cross'', rp_rerank_top_k = Some 3 \<rparr>]"
    by (simp add: retrieve_def retrieve_payload_def default_settings_def int_or_def
        rerank_request_def sample_request_def py_lower_def lower_char_def Let_def)
  show ?thesis
    using a b c d
      retrieve_rerank_top_k_precedence[OF a b c, of inert_builtins sample_upstream
        "''tofu soup''"]
    by simp
qed

text \<open>
  Claim C10, amended. For an item whose \<open>combined_score\<close> parses to \<open>0.0\<close> and that
  becomes a document, the score recorded is what \<open>rerank_score\<close> parses to when that
  is a non-zero float, and otherwise whatever \<open>score\<close> parses to: a non-zero float,
  \<open>0.0\<close> or \<open>None\<close>.
\<close>

theorem zero_combined_score_falls_through:
  assumes "dict_get item ''combined_score'' = Inr c"
    and "maybe_float py c = Inr (Some (FloatVal 0))"
    and "normalize_item py item = Inr (Some doc)"
  shows "\<exists>r s b. dict_get item ''rerank_score'' = Inr r \<and> dict_get item ''score'' = Inr s \<and>
           maybe_float py r = Inr b \<and>
           (if opt_float_truthy b then score doc = b else maybe_float py s = Inr (score doc))"
proof -
  obtain kvs where item: "item = JDict kvs"
    using assms(1) by (cases item) simp_all
  obtain r s where rs: "dict_get item ''rerank_score'' = Inr r" "dict_get item ''score'' = Inr s"
    unfolding item by simp
  have sc: "score_of_item py item = Inr (score doc)"
    using assms(3) unfolding normalize_item_def optional_dict_field_def
      optional_str_field_def item
    by (auto simp: and_then_def split: sum.splits if_splits)
  have "score_of_item py item =
          and_then (maybe_float py r) (\<lambda>b. if opt_float_truthy b then Inr b else maybe_float py s)"
    using assms(1,2) rs
    by (auto simp: score_of_item_def and_then_def opt_float_truthy_def float_truthy_def
        split: sum.splits)
  then obtain b where b: "maybe_float py r = Inr b"
     "(if opt_float_truthy b then Inr b else maybe_float py s) = Inr (score doc)"
    using sc by (auto simp: and_then_def split: sum.splits)
  show ?thesis using rs b by (auto split: if_splits)
qed

theorem zero_combined_score_witness:
  "dict_get (scored_item (FloatVal 0) (JFloat (FloatVal (31 / 50))) JNull) ''combined_score'' =
     Inr (JFloat (FloatVal 0)) \<and>
   maybe_float inert_builtins (JFloat (FloatVal 0)) = Inr (Some (FloatVal 0)) \<and>
   normalize_item inert_builtins (scored_item (FloatVal 0) (JFloat (FloatVal (31 / 50))) JNull) =
     Inr (Some (plain_document ''Tofu soup'' (Some (FloatVal (31 / 50))))) \<and>
   (\<exists>r s b.
      dict_get (scored_item (FloatVal 0) (JFloat (FloatVal (31 / 50))) JNull) ''rerank_score'' =
        Inr r \<and>
      dict_get (scored_item (FloatVal 0) (JFloat (FloatVal (31 / 50))) JNull) ''score'' = Inr s \<and>
      maybe_float inert_builtins r = Inr b \<and>
      (if opt_float_truthy b
       then score (plain_document ''Tofu soup'' (Some (FloatVal (31 / 50)))) = b
       else maybe_float inert_builtins s =
              Inr (score (plain_document ''Tofu soup'' (Some (FloatVal (31 / 50)))))))"
proof -
  have a: "dict_get (scored_item (FloatVal 0) (JFloat (FloatVal (31 / 50))) JNull)
             ''combined_score'' = Inr (JFloat (FloatVal 0))"
    by (simp add: scored_item_def)
  have b: "maybe_float inert_builtins (JFloat (FloatVal 0)) = Inr (Some (FloatVal 0))"
    by (simp add: maybe_float_def)
  have c: "normalize_item inert_builtins
             (scored_item (FloatVal 0) (JFloat (FloatVal (31 / 50))) JNull) =
           Inr (Some (plain_document ''Tofu soup'' (Some (FloatVal (31 / 50)))))"
    by (simp add: normalize_item_def optional_dict_field_def
      optional_str_field_def scored_item_def plain_document_def and_then_def
        score_of_item_def maybe_float_def maybe_str_def opt_float_truthy_def float_truthy_def
        py_strip_def is_space_def)
  show ?thesis
    using a b c zero_combined_score_falls_through[OF a b c] by simp
qed

text \<open>
  The claim as stated fails when \<open>score\<close> is \<open>0.0\<close> as well: the last operand of the
  \<open>or\<close> chain is returned as it is, so \<open>0.0\<close> is recorded, where the claim has no
  \<open>0.0\<close> recorded and \<open>None\<close> when no field parses to a non-zero float.
\<close>

theorem zero_score_recorded_counterexample:
  "maybe_float inert_builtins (JFloat (FloatVal 0)) = Inr (Some (FloatVal 0)) \<and>
   normalize_item inert_builtins (scored_item (FloatVal 0) JNull (JFloat (FloatVal 0))) =
     Inr (Some (plain_document ''Tofu soup'' (Some (FloatVal 0))))"
  by (simp add: normalize_item_def optional_dict_field_def
      optional_str_field_def scored_item_def plain_document_def and_then_def
      score_of_item_def maybe_float_def maybe_str_def opt_float_truthy_def float_truthy_def
      py_strip_def is_space_def)

text \<open>
  The item \<open>{"name": "X", "text": "Y", "combined_score": 0.8}\<close> becomes the document
  with title \<open>X\<close>, content \<open>Y\<close> and score \<open>0.8\<close>.
\<close>

theorem normalize_item_round_trip:
  "normalize_item inert_builtins
     (JDict [(''name'', JStr ''X''), (''text'', JStr ''Y''),
             (''combined_score'', JFloat (FloatVal (4 / 5)))]) =
     Inr (Some ((plain_document ''Y'' (Some (FloatVal (4 / 5)))) \<lparr> title := Some ''X'' \<rparr>))"
  by (simp add: normalize_item_def optional_dict_field_def
      optional_str_field_def plain_document_def and_then_def
      score_of_item_def maybe_float_def maybe_str_def opt_float_truthy_def float_truthy_def
      py_strip_def is_space_def)

section \<open>The handler\<close>

text \<open>The generator sends no request of its own.\<close>

lemma streaming_response_calls:
  "snd (streaming_response settings up messages docs) = snd (stream_chat settings up messages)"
  by (auto simp: streaming_response_def Let_def
      split: prod.splits option.splits py_exn.splits sum.splits)

text \<open>The only request the rewriting step can send is the rewriter's own.\<close>

lemma rewritten_query_calls:
  "snd (rewritten_query settings up request) = [] \<or>
   snd (rewritten_query settings up request) =
     [PostCompletion (base_url settings)
        \<lparr> cp_model = rw_model_name (rewriter settings),
          cp_messages = build_rewriter_messages (query request),
          cp_temperature = rw_temperature (rewriter settings),
          cp_top_p = rw_top_p (rewriter settings),
          cp_max_tokens = rw_max_tokens (rewriter settings), cp_stream = False \<rparr>]"
  by (auto simp: rewritten_query_def rewrite_query_def Let_def
      split: sum.splits prod.splits if_splits)

text \<open>The sample request against the sample peers: the rewriting and retrieval steps.\<close>

lemma sample_rewritten_query:
  "rewrite_reply up = rewrite_reply sample_upstream \<Longrightarrow>
   api_key settings \<noteq> [] \<Longrightarrow> enabled (rewriter settings) \<Longrightarrow>
   fst (rewritten_query settings up sample_request) = Inr ''light tofu soup recipe''"
  by (simp add: rewritten_query_def rewrite_query_def sample_upstream_def
      sample_request_def completion_reply_def require_api_key_def and_then_def
      rewrite_from_reply_def py_or_def py_strip_def is_space_def py_split_def py_rsplit1_def
      Let_def)

lemma sample_retrieve:
  "retrieval_reply up = retrieval_reply sample_upstream \<Longrightarrow>
   fst (retrieve inert_builtins default_settings up q k ur rm rk) =
     Inr [plain_document ''Tofu soup: simmer tofu in stock.'' None]"
  by (simp add: retrieve_def default_settings_def sample_upstream_def text_item_def
      documents_from_reply_def normalize_item_def optional_dict_field_def
      optional_str_field_def plain_document_def and_then_def
      score_of_item_def maybe_float_def maybe_str_def opt_float_truthy_def py_or_def
      py_strip_def is_space_def Let_def)

text \<open>
  Claim C7, amended. When the retrieval endpoint is unconfigured and the rewriting
  step ends with a query (the rewritten one or the fallback), \<open>/chat\<close> fails with HTTP
  500 and the detail \<open>RAG_API_URL is not configured\<close>, and no generation request
  (\<open>chat\<close> or \<open>stream_chat\<close>) is sent. The completion service receives the rewriter's
  request, and nothing else, when rewriting is enabled and the API key is set; it
  receives nothing otherwise.
\<close>

theorem chat_without_retrieval_endpoint:
  assumes "url (retrieval settings) = []"
    and "fst (rewritten_query settings up request) = Inr q'"
  shows "fst (chat py settings up request) =
           Inl (HTTPException 500 ''RAG_API_URL is not configured'') \<and>
         snd (chat py settings up request) =
           (if enabled (rewriter settings) \<and> api_key settings \<noteq> []
            then [PostCompletion (base_url settings)
                    \<lparr> cp_model = rw_model_name (rewriter settings),
                      cp_messages = build_rewriter_messages (query request),
                      cp_temperature = rw_temperature (rewriter settings),
                      cp_top_p = rw_top_p (rewriter settings),
                      cp_max_tokens = rw_max_tokens (rewriter settings), cp_stream = False \<rparr>]
            else [])"
proof -
  obtain calls where rq: "rewritten_query settings up request = (Inr q', calls)"
    using assms(2) by (cases "rewritten_query settings up request") simp
  have "chat py settings up request =
          (Inl (HTTPException 500 ''RAG_API_URL is not configured''), calls)"
    using assms(1) by (simp add: chat_def rq retrieve_def retrieval_failure_def)
  moreover have "snd (rewritten_query settings up request) =
           (if enabled (rewriter settings) \<and> api_key settings \<noteq> []
            then [PostCompletion (base_url settings)
                    \<lparr> cp_model = rw_model_name (rewriter settings),
                      cp_messages = build_rewriter_messages (query request),
                      cp_temperature = rw_temperature (rewriter settings),
                      cp_top_p = rw_top_p (rewriter settings),
                      cp_max_tokens = rw_max_tokens (rewriter settings), cp_stream = False \<rparr>]
            else [])"
    by (auto simp: rewritten_query_def rewrite_query_def require_api_key_def Let_def
        split: sum.splits prod.splits if_splits)
  ultimately show ?thesis
    using rq by simp
qed

theorem chat_without_retrieval_endpoint_witness:
  "url (retrieval settings_without_retrieval) = [] \<and>
   fst (rewritten_query settings_without_retrieval sample_upstream sample_request) =
     Inr ''light tofu soup recipe'' \<and>
   fst (chat inert_builtins settings_without_retrieval sample_upstream sample_request) =
     Inl (HTTPException 500 ''RAG_API_URL is not configured'')"
proof -
  have a: "url (retrieval settings_without_retrieval) = []"
    by (simp add: settings_without_retrieval_def)
  have b: "fst (rewritten_query settings_without_retrieval sample_upstream sample_request) =
     Inr ''light tofu soup recipe''"
    by (rule sample_rewritten_query)
       (simp_all add: settings_without_retrieval_def default_settings_def)
  show ?thesis
    using a b chat_without_retrieval_endpoint[OF a b, of inert_builtins] by simp
qed

text \<open>
  The claim as stated fails under the default configuration, where rewriting is
  enabled: the rewriter's request goes to the completion service before retrieval
  is attempted. And when the rewriter's reply is a JSON array, \<open>data.get\<close> raises
  AttributeError, which no \<open>except\<close> clause of the handler catches: the request fails
  before the retrieval endpoint is looked at, with no HTTP 500 of the handler's own.
\<close>

theorem chat_calls_completion_service_counterexample:
  "url (retrieval settings_without_retrieval) = [] \<and>
   snd (chat inert_builtins settings_without_retrieval sample_upstream sample_request) =
     [PostCompletion ''https://api.siliconflow.cn/v1/chat/completions''
        \<lparr> cp_model = ''Qwen/Qwen2.5-7B-Instruct'',
          cp_messages =
            [\<lparr> role = ''system'', content_of = QUERY_REWRITER_SYSTEM_PROMPT \<rparr>,
             \<lparr> role = ''user'', content_of = QUERY_REWRITER_USER_PROMPT ''tofu soup'' \<rparr>],
          cp_temperature = FloatVal (1 / 10), cp_top_p = FloatVal (9 / 10),
          cp_max_tokens = 128, cp_stream = False \<rparr>] \<and>
   fst (chat inert_builtins settings_without_retrieval
          (sample_upstream \<lparr> rewrite_reply := Inr (JList []) \<rparr>) sample_request) =
     Inl AttributeError"
  by (simp add: chat_def retrieve_def retrieval_failure_def rewritten_query_def
      settings_without_retrieval_def rewrite_query_def default_settings_def
      sample_upstream_def sample_request_def completion_reply_def require_api_key_def
      and_then_def rewrite_from_reply_def build_rewriter_messages_def py_or_def py_strip_def
      is_space_def py_split_def py_rsplit1_def rewrite_failure_caught_def Let_def)

text \<open>
  Claim C4, amended. When the rewriting step ends with the query \<open>q'\<close> and retrieval
  succeeds, the retrieval request carries \<open>q'\<close>, while the messages handed to the
  completion service are built from the query of the request as it came in: the
  rewritten query is used for retrieval only.
\<close>

theorem chat_prompt_uses_request_query:
  assumes "fst (rewritten_query settings up request) = Inr q'"
    and "fst (retrieve py settings up q' (req_top_k request) (req_use_rerank request)
               (req_rerank_mode request) (req_rerank_top_k request)) = Inr docs"
    and "api_key settings \<noteq> []"
  shows "snd (chat py settings up request) =
           snd (rewritten_query settings up request) @
           [PostRetrieval (url (retrieval settings))
              (retrieve_payload settings q' (req_top_k request) (req_use_rerank request)
                 (req_rerank_mode request) (req_rerank_top_k request)),
            (if req_stream request then StreamCompletion else PostCompletion)
              (base_url settings)
              \<lparr> cp_model = model_name (model settings),
                cp_messages =
                  build_messages py (query request) (trim_documents settings docs None),
                cp_temperature = temperature (model settings),
                cp_top_p = top_p (model settings),
                cp_max_tokens = max_tokens (model settings),
                cp_stream = (if req_stream request then True else stream (model settings)) \<rparr>]"
proof -
  obtain calls1 where rq: "rewritten_query settings up request = (Inr q', calls1)"
    using assms(1) by (cases "rewritten_query settings up request") simp
  obtain calls2 where rt:
    "retrieve py settings up q' (req_top_k request) (req_use_rerank request)
       (req_rerank_mode request) (req_rerank_top_k request) = (Inr docs, calls2)"
    using assms(2)
    by (cases "retrieve py settings up q' (req_top_k request) (req_use_rerank request)
                 (req_rerank_mode request) (req_rerank_top_k request)") simp
  have c2: "calls2 = [PostRetrieval (url (retrieval settings))
              (retrieve_payload settings q' (req_top_k request) (req_use_rerank request)
                 (req_rerank_mode request) (req_rerank_top_k request))]"
    using rt by (auto simp: retrieve_def Let_def split: if_splits)
  show ?thesis
  proof (cases "req_stream request")
    case True
    then have "snd (chat py settings up request) =
        calls1 @ calls2 @
        snd (stream_chat settings up
               (build_messages py (query request) (trim_documents settings docs None)))"
      using streaming_response_calls[of settings up
          "build_messages py (query request) (trim_documents settings docs None)"
          "trim_documents settings docs None"]
      by (auto simp: chat_def rq rt Let_def split: prod.splits)
    then show ?thesis
      using True assms(3) by (simp add: rq c2 stream_chat_def require_api_key_def)
  next
    case False
    then show ?thesis
      using assms(3)
      by (simp add: chat_def rq rt c2 Let_def buffered_answer_def client_chat_def
          require_api_key_def split: prod.splits sum.splits)
  qed
qed

theorem chat_prompt_uses_request_query_witness:
  "fst (rewritten_query default_settings sample_upstream sample_request) =
     Inr ''light tofu soup recipe'' \<and>
   fst (retrieve inert_builtins default_settings sample_upstream ''light tofu soup recipe''
          (req_top_k sample_request) (req_use_rerank sample_request)
          (req_rerank_mode sample_request) (req_rerank_top_k sample_request)) =
     Inr [plain_document ''Tofu soup: simmer tofu in stock.'' None] \<and>
   api_key default_settings \<noteq> [] \<and>
   snd (chat inert_builtins default_settings sample_upstream sample_request) =
     snd (rewritten_query default_settings sample_upstream sample_request) @
     [PostRetrieval (url (retrieval default_settings))
        (retrieve_payload default_settings ''light tofu soup recipe''
           (req_top_k sample_request) (req_use_rerank sample_request)
           (req_rerank_mode sample_request) (req_rerank_top_k sample_request)),
      PostCompletion (base_url default_settings)
        \<lparr> cp_model = model_name (model default_settings),
          cp_messages =
            build_messages inert_builtins ''tofu soup''
              (trim_documents default_settings
                 [plain_document ''Tofu soup: simmer tofu in stock.'' None] None),
          cp_temperature = temperature (model default_settings),
          cp_top_p = top_p (model default_settings),
          cp_max_tokens = max_tokens (model default_settings),
          cp_stream = stream (model default_settings) \<rparr>]"
proof -
  have a: "fst (rewritten_query default_settings sample_upstream sample_request) =
     Inr ''light tofu soup recipe''"
    by (rule sample_rewritten_query) (simp_all add: default_settings_def)
  have b: "fst (retrieve inert_builtins default_settings sample_upstream
              ''light tofu soup recipe''
              (req_top_k sample_request) (req_use_rerank sample_request)
              (req_rerank_mode sample_request) (req_rerank_top_k sample_request)) =
     Inr [plain_document ''Tofu soup: simmer tofu in stock.'' None]"
    by (rule sample_retrieve) simp
  have c: "api_key default_settings \<noteq> []" by (simp add: default_settings_def)
  have d: "\<not> req_stream sample_request" "query sample_request = ''tofu soup''"
    by (simp_all add: sample_request_def)
  show ?thesis
    using a b c d chat_prompt_uses_request_query[OF a b c] by simp
qed

text \<open>
  The claim as stated fails on the sample run: rewriting is enabled and returns a
  query other than the original, and the user message sent to the completion service
  interpolates the original query.
\<close>

theorem chat_prompt_keeps_original_query_counterexample:
  "enabled (rewriter default_settings) \<and>
   fst (rewrite_query default_settings sample_upstream (query sample_request)) =
     Inr ''light tofu soup recipe'' \<and>
   query sample_request = ''tofu soup'' \<and>
   last (snd (chat inert_builtins default_settings sample_upstream sample_request)) =
     PostCompletion ''https://api.siliconflow.cn/v1/chat/completions''
       \<lparr> cp_model = ''Qwen/Qwen2.5-7B-Instruct'',
         cp_messages =
           [\<lparr> role = ''system'', content_of = SYSTEM_PROMPT \<rparr>,
            \<lparr> role = ''user'',
              content_of =
                USER_PROMPT_TEMPLATE ''tofu soup''
                  (ContextText (''[1] Doc-1'' @ [CHR 0x0A] @
                                ''Tofu soup: simmer tofu in stock.'')) \<rparr>],
         cp_temperature = FloatVal (7 / 10), cp_top_p = FloatVal (9 / 10),
         cp_max_tokens = 1024, cp_stream = False \<rparr>"
  by (simp add: chat_def rewritten_query_def rewrite_query_def retrieve_def
      retrieve_payload_def buffered_answer_def client_chat_def trim_documents_def slice_to_def
      int_or_def build_messages_def format_document_def str_or_def replace_newlines_def
      str_of_nat.simps char_of_def bit_Suc_0_iff extract_answer_def extract_usage_def
      model_of_reply_def str_field_def default_settings_def sample_upstream_def sample_request_def
      completion_reply_def text_item_def documents_from_reply_def normalize_item_def optional_dict_field_def
      optional_str_field_def
      and_then_def score_of_item_def maybe_float_def maybe_str_def opt_float_truthy_def
      py_or_def py_lower_def lower_char_def build_rewriter_messages_def require_api_key_def
      rewrite_from_reply_def py_strip_def is_space_def py_split_def py_rsplit1_def Let_def)

text \<open>
  Claim C1 says that the documents are cut to the effective \<open>top_k\<close>, the request's
  override when present. The handler calls \<open>_trim_documents\<close> without its \<open>limit\<close>
  argument, so the cut is always at the configured \<open>top_k\<close>: a request for six
  documents, answered by the retriever with six, is served from five.
\<close>

theorem chat_trims_to_configured_top_k:
  "valid_retrieval_config (retrieval default_settings) \<and>
   top_k (retrieval default_settings) = 5 \<and>
   valid_request top_six_request \<and>
   req_top_k top_six_request = Some 6 \<and>
   fst (retrieve inert_builtins default_settings six_items_upstream
          ''light tofu soup recipe'' (Some 6) None None None) =
     Inr (plain_documents [''d1'', ''d2'', ''d3'', ''d4'', ''d5'', ''d6'']) \<and>
   fst (chat inert_builtins default_settings six_items_upstream top_six_request) =
     Inr (Buffered
            \<lparr> answer = ''Simmer the tofu gently.'',
              cr_model = ''Qwen/Qwen2.5-7B-Instruct'', usage = None,
              raw_response = completion_reply ''Simmer the tofu gently.'',
              documents = plain_documents [''d1'', ''d2'', ''d3'', ''d4'', ''d5''] \<rparr>) \<and>
   last (snd (chat inert_builtins default_settings six_items_upstream top_six_request)) =
     PostCompletion ''https://api.siliconflow.cn/v1/chat/completions''
       \<lparr> cp_model = ''Qwen/Qwen2.5-7B-Instruct'',
         cp_messages =
           build_messages inert_builtins ''tofu soup''
             (plain_documents [''d1'', ''d2'', ''d3'', ''d4'', ''d5'']),
         cp_temperature = FloatVal (7 / 10), cp_top_p = FloatVal (9 / 10),
         cp_max_tokens = 1024, cp_stream = False \<rparr>"
  by (simp add: chat_def rewritten_query_def rewrite_query_def retrieve_def
      retrieve_payload_def buffered_answer_def client_chat_def trim_documents_def slice_to_def
      int_or_def extract_answer_def extract_usage_def model_of_reply_def str_field_def
      default_settings_def sample_upstream_def six_items_upstream_def sample_request_def
      top_six_request_def six_items_def plain_document_def plain_documents_def
      completion_reply_def
      text_item_def documents_from_reply_def normalize_item_def optional_dict_field_def
      optional_str_field_def and_then_def score_of_item_def
      maybe_float_def maybe_str_def opt_float_truthy_def py_or_def py_lower_def lower_char_def
      build_rewriter_messages_def require_api_key_def rewrite_from_reply_def py_strip_def
      is_space_def py_split_def py_rsplit1_def valid_request_def valid_retrieval_config_def
      Let_def)

text \<open>
  What the handler's cut does for a configuration that passes validation: it keeps
  the first \<open>top_k\<close> documents, in order, \<open>top_k\<close> being the configured value.
\<close>

theorem trim_documents_configured:
  assumes "valid_retrieval_config (retrieval settings)"
  shows "trim_documents settings docs None = take (nat (top_k (retrieval settings))) docs \<and>
         length (trim_documents settings docs None) =
           min (length docs) (nat (top_k (retrieval settings)))"
  using assms
  by (auto simp: trim_documents_def slice_to_def int_or_def valid_retrieval_config_def)

theorem trim_documents_configured_witness:
  "valid_retrieval_config (retrieval default_settings) \<and>
   trim_documents default_settings (plain_documents [''d1'', ''d2'', ''d3'', ''d4'', ''d5'', ''d6'']) None =
     plain_documents [''d1'', ''d2'', ''d3'', ''d4'', ''d5'']"
proof -
  have a: "valid_retrieval_config (retrieval default_settings)"
    by (simp add: valid_retrieval_config_def default_settings_def)
  have "nat (top_k (retrieval default_settings)) = 5" by (simp add: default_settings_def)
  then show ?thesis
    using a trim_documents_configured[OF a, of "plain_documents [''d1'', ''d2'', ''d3'', ''d4'', ''d5'', ''d6'']"]
    by (simp add: plain_documents_def)
qed

text \<open>What \<open>_extract_answer\<close> does with a reply that holds no answer.\<close>

lemma extract_answer_answerless:
  assumes "answerless_reply raw"
  shows "extract_answer raw = Inl (HTTPException 502 ''SiliconFlow returned no choices'') \<or>
         extract_answer raw = Inl (HTTPException 502 ''Choice contained no message content'')"
  using assms
proof (cases rule: answerless_reply.elims(2))
  case (1 kvs)
  from 1(2) show ?thesis
  proof (cases rule: choices_answerless.elims(2))
    case 1
    then show ?thesis
      using \<open>raw = JDict kvs\<close> by (simp add: extract_answer_def and_then_def py_or_def)
  next
    case (2 ckvs others)
    then show ?thesis
      using \<open>raw = JDict kvs\<close>
        blank_message_content[OF 2(2), of "\<lambda>content. if content = []
           then Inl (HTTPException 502 ''Choice contained no message content'')
           else Inr content"]
      by (simp add: extract_answer_def and_then_def py_or_def)
  qed
qed

text \<open>
  Claim C8. For a non-streaming request that reaches the completion service, a
  well-formed reply whose \<open>choices\<close> list is empty, or whose first choice has no
  message content or content that is empty after trimming, makes the handler fail
  with HTTP 502.
\<close>

theorem chat_rejects_answerless_reply:
  assumes "\<not> req_stream request"
    and "fst (rewritten_query settings up request) = Inr q'"
    and "fst (retrieve py settings up q' (req_top_k request) (req_use_rerank request)
               (req_rerank_mode request) (req_rerank_top_k request)) = Inr docs"
    and "api_key settings \<noteq> []"
    and "chat_reply up = Inr raw"
    and "answerless_reply raw"
  shows "fst (chat py settings up request) =
           Inl (HTTPException 502 ''SiliconFlow returned no choices'') \<or>
         fst (chat py settings up request) =
           Inl (HTTPException 502 ''Choice contained no message content'')"
proof -
  obtain calls1 where rq: "rewritten_query settings up request = (Inr q', calls1)"
    using assms(2) by (cases "rewritten_query settings up request") simp
  obtain calls2 where rt:
    "retrieve py settings up q' (req_top_k request) (req_use_rerank request)
       (req_rerank_mode request) (req_rerank_top_k request) = (Inr docs, calls2)"
    using assms(3)
    by (cases "retrieve py settings up q' (req_top_k request) (req_use_rerank request)
                 (req_rerank_mode request) (req_rerank_top_k request)") simp
  have "fst (chat py settings up request) =
          and_then (extract_answer raw) (\<lambda>ans.
          and_then (extract_usage py raw) (\<lambda>us.
          and_then (model_of_reply raw (model_name (model settings))) (\<lambda>name.
          and_then (str_field py name) (\<lambda>valid_name.
            Inr (Buffered \<lparr> answer = ans, cr_model = valid_name, usage = us,
                   raw_response = raw,
                   documents = trim_documents settings docs None \<rparr>)))))"
    using assms(1,4,5)
    by (simp add: chat_def rq rt Let_def buffered_answer_def client_chat_def
        require_api_key_def split: prod.splits)
  then show ?thesis
    using extract_answer_answerless[OF assms(6)] by (auto simp: and_then_def)
qed

theorem chat_rejects_answerless_reply_witness:
  "\<not> req_stream sample_request \<and>
   fst (rewritten_query default_settings no_choices_upstream sample_request) =
     Inr ''light tofu soup recipe'' \<and>
   fst (retrieve inert_builtins default_settings no_choices_upstream
          ''light tofu soup recipe''
          (req_top_k sample_request) (req_use_rerank sample_request)
          (req_rerank_mode sample_request) (req_rerank_top_k sample_request)) =
     Inr [plain_document ''Tofu soup: simmer tofu in stock.'' None] \<and>
   api_key default_settings \<noteq> [] \<and>
   chat_reply no_choices_upstream = Inr (JDict [(''choices'', JList [])]) \<and>
   answerless_reply (JDict [(''choices'', JList [])]) \<and>
   (fst (chat inert_builtins default_settings no_choices_upstream sample_request) =
      Inl (HTTPException 502 ''SiliconFlow returned no choices'') \<or>
    fst (chat inert_builtins default_settings no_choices_upstream sample_request) =
      Inl (HTTPException 502 ''Choice contained no message content''))"
proof -
  have s: "\<not> req_stream sample_request" by (simp add: sample_request_def)
  have a: "fst (rewritten_query default_settings no_choices_upstream sample_request) =
     Inr ''light tofu soup recipe''"
    by (rule sample_rewritten_query)
       (simp_all add: default_settings_def no_choices_upstream_def)
  have b: "fst (retrieve inert_builtins default_settings no_choices_upstream
              ''light tofu soup recipe''
              (req_top_k sample_request) (req_use_rerank sample_request)
              (req_rerank_mode sample_request) (req_rerank_top_k sample_request)) =
     Inr [plain_document ''Tofu soup: simmer tofu in stock.'' None]"
    by (rule sample_retrieve) (simp add: no_choices_upstream_def)
  have c: "api_key default_settings \<noteq> []" by (simp add: default_settings_def)
  have d: "chat_reply no_choices_upstream = Inr (JDict [(''choices'', JList [])])"
    by (simp add: no_choices_upstream_def)
  have e: "answerless_reply (JDict [(''choices'', JList [])])" by simp
  show ?thesis
    using s a b c d e chat_rejects_answerless_reply[OF s a b c d e] by simp
qed

section \<open>The event stream\<close>








end
